theory Spec2Isabelle
  imports Complex_Main "HOL-Library.Char_ord" "HOL-Library.List_Lexorder" "HOL-Library.Sublist"
begin

section \<open>JavaScript values used by the views\<close>

text \<open>
  A JavaScript \<open>number\<close>: \<open>NaN\<close>, one of the two infinities, or a finite value. Every
  finite double is a rational number; the program only tests numbers with \<open>isNaN\<close>,
  compares them with zero and copies them.
\<close>

datatype number = NaN | PosInfinity | NegInfinity | Num rat

fun isNaN :: "number \<Rightarrow> bool" where
  "isNaN NaN = True"
| "isNaN _ = False"

text \<open>\<open>x <= 0\<close> on numbers: every comparison with \<open>NaN\<close> is false.\<close>

fun le_zero :: "number \<Rightarrow> bool" where
  "le_zero NaN = False"
| "le_zero PosInfinity = False"
| "le_zero NegInfinity = True"
| "le_zero (Num r) = (r \<le> 0)"

text \<open>
  A string is the list of its code units. The views call four built-in functions of
  the language on strings: \<open>trim\<close>, \<open>toLowerCase\<close>, \<open>parseFloat\<close> and \<open>parseInt\<close>. They
  are not code of the program, and what they compute on every string (each white space
  character and each cased letter of Unicode, the rounding of a decimal to a double) is
  laid down by the language. The operations below therefore take the built-ins as a
  parameter \<open>js\<close>: a theorem about an operation holds for whatever the built-ins
  compute.
\<close>

record builtins =
  trim :: "string \<Rightarrow> string"
  toLowerCase :: "string \<Rightarrow> string"
  parseFloat :: "string \<Rightarrow> number"
  parseInt :: "string \<Rightarrow> number"

text \<open>\<open>s.includes(t)\<close>: \<open>t\<close> occurs in \<open>s\<close> at some position.\<close>

fun startsWith :: "string \<Rightarrow> string \<Rightarrow> bool" where
  "startsWith s [] = True"
| "startsWith [] (c # t) = False"
| "startsWith (d # s) (c # t) = (d = c \<and> startsWith s t)"

fun includes_str :: "string \<Rightarrow> string \<Rightarrow> bool" where
  "includes_str [] t = (t = [])"
| "includes_str (d # s) t = (startsWith (d # s) t \<or> includes_str s t)"

text \<open>\<open>x || y\<close> on a string that becomes a nullable column: the empty string is falsy.\<close>

definition or_null :: "string \<Rightarrow> string option" where
  "or_null s = (if s = [] then None else Some s)"

section \<open>The generated schema types\<close>

datatype order_status = pending | confirmed | shipped | delivered | cancelled | reviewed

datatype product_type = shoot | fruit

datatype user_role = user | farm | admin

text \<open>\<open>Constants.public.Enums\<close>: the values of each enum, as listed in the source.\<close>

definition order_status_values :: "order_status list" where
  "order_status_values = [pending, confirmed, shipped, delivered, cancelled, reviewed]"

definition product_type_values :: "product_type list" where
  "product_type_values = [shoot, fruit]"

text \<open>The text of a product type, as the store sends it.\<close>

fun product_type_text :: "product_type \<Rightarrow> string" where
  "product_type_text shoot = ''shoot''"
| "product_type_text fruit = ''fruit''"

record farm_profiles_row =
  fp_created_at :: "string option"
  farm_description :: "string option"
  farm_image_url :: "string option"
  farm_location :: string
  farm_name :: string
  fp_id :: string
  rating :: "number option"
  total_reviews :: "number option"
  total_sales :: "number option"
  fp_updated_at :: "string option"
  user_id :: string
  verified :: "bool option"

record orders_row =
  cancellation_reason :: "string option"
  cancelled_at :: "string option"
  confirmed_at :: "string option"
  o_created_at :: "string option"
  delivered_at :: "string option"
  delivery_address :: string
  delivery_notes :: "string option"
  o_farm_id :: string
  o_id :: string
  product_id :: string
  quantity :: number
  shipped_at :: "string option"
  status :: order_status
  total_price :: number
  tracking_number :: "string option"
  o_updated_at :: "string option"
  o_user_id :: string

record products_row =
  available_quantity :: number
  created_at :: "string option"
  cultivar_id :: "string option"
  description :: "string option"
  expiry_date :: "string option"
  farm_id :: string
  harvest_date :: string
  id :: string
  image_url :: "string option"
  is_active :: "bool option"
  name :: string
  price_per_unit :: number
  product_type :: product_type
  unit :: string
  updated_at :: "string option"

record profiles_row =
  address :: "string option"
  avatar_url :: "string option"
  pr_created_at :: "string option"
  full_name :: string
  pr_id :: string
  phone :: "string option"
  pr_updated_at :: "string option"

section \<open>The hosted store\<close>

text \<open>
  The views reach the store through the query builder of the hosted backend. A table is
  the list of its rows. A call either answers or comes back with an error; whether a
  call fails is decided outside the program, so each operation below takes, for each
  call it makes, the error that call comes back with (\<open>None\<close> when it answers).
  An update writes the listed columns of the matching rows and nothing else.
\<close>

record database =
  products_table :: "products_row list"
  farm_profiles_table :: "farm_profiles_row list"
  profiles_table :: "profiles_row list"
  orders_table :: "orders_row list"

datatype store_error = StoreError (instanceof_Error: bool) (message: string)

fun respond :: "store_error option \<Rightarrow> 'a \<Rightarrow> store_error + 'a" where
  "respond None x = Inr x"
| "respond (Some e) x = Inl e"

definition eq :: "('r \<Rightarrow> 'v) \<Rightarrow> 'v \<Rightarrow> 'r list \<Rightarrow> 'r list" where
  "eq col v rows = filter (\<lambda>r. col r = v) rows"

definition in_list :: "('r \<Rightarrow> 'v) \<Rightarrow> 'v list \<Rightarrow> 'r list \<Rightarrow> 'r list" where
  "in_list col vs rows = filter (\<lambda>r. col r \<in> set vs) rows"

definition order_ascending :: "('r \<Rightarrow> 'k::linorder) \<Rightarrow> 'r list \<Rightarrow> 'r list" where
  "order_ascending col rows = sort_key col rows"

text \<open>
  \<open>maybeSingle\<close>: no row is \<open>null\<close>, one row is that row, more than one row is an
  error of the store (a plain object, not an \<open>Error\<close>).
\<close>

definition multiple_rows :: store_error where
  "multiple_rows = StoreError False ''JSON object requested, multiple (or no) rows returned''"

fun maybeSingle :: "'r list \<Rightarrow> store_error + 'r option" where
  "maybeSingle [] = Inr None"
| "maybeSingle [r] = Inr (Some r)"
| "maybeSingle (r # r' # rs) = Inl multiple_rows"

text \<open>
  The writes the pages send to the store: the payload of the one \<open>insert\<close> and of each
  \<open>update\<close>, with the \<open>id\<close> that the update selects its rows by.
\<close>

record products_insert =
  i_farm_id :: string
  i_name :: string
  i_description :: "string option"
  i_product_type :: product_type
  i_price_per_unit :: number
  i_available_quantity :: number
  i_unit :: string
  i_harvest_date :: string
  i_expiry_date :: "string option"
  i_image_url :: "string option"
  i_is_active :: bool

record farm_profiles_update =
  u_farm_name :: string
  u_farm_location :: string
  u_farm_description :: "string option"

record profiles_update =
  u_full_name :: string
  u_phone :: "string option"
  u_address :: "string option"

datatype request =
    insert_products products_insert
  | update_products_is_active bool string
  | update_farm_profiles farm_profiles_update string
  | update_profiles profiles_update string

text \<open>
  The columns that an insert leaves out are filled in by the store; the values it
  chooses for \<open>id\<close>, \<open>created_at\<close> and \<open>updated_at\<close> are given from outside.
\<close>

record store_defaults =
  new_id :: string
  new_created_at :: "string option"
  new_updated_at :: "string option"

definition inserted_row :: "store_defaults \<Rightarrow> products_insert \<Rightarrow> products_row" where
  "inserted_row d v =
     \<lparr>available_quantity = i_available_quantity v, created_at = new_created_at d,
      cultivar_id = None, description = i_description v, expiry_date = i_expiry_date v,
      farm_id = i_farm_id v, harvest_date = i_harvest_date v, id = new_id d,
      image_url = i_image_url v, is_active = Some (i_is_active v), name = i_name v,
      price_per_unit = i_price_per_unit v, product_type = i_product_type v, unit = i_unit v,
      updated_at = new_updated_at d\<rparr>"

fun perform :: "store_defaults \<Rightarrow> request \<Rightarrow> database \<Rightarrow> database" where
  "perform d (insert_products v) db =
     db\<lparr>products_table := products_table db @ [inserted_row d v]\<rparr>"
| "perform d (update_products_is_active b pid) db =
     db\<lparr>products_table :=
          map (\<lambda>r. if id r = pid then r\<lparr>is_active := Some b\<rparr> else r) (products_table db)\<rparr>"
| "perform d (update_farm_profiles v fid) db =
     db\<lparr>farm_profiles_table :=
          map (\<lambda>r. if fp_id r = fid
                   then r\<lparr>farm_name := u_farm_name v, farm_location := u_farm_location v,
                          farm_description := u_farm_description v\<rparr>
                   else r) (farm_profiles_table db)\<rparr>"
| "perform d (update_profiles v uid) db =
     db\<lparr>profiles_table :=
          map (\<lambda>r. if pr_id r = uid
                   then r\<lparr>full_name := u_full_name v, phone := u_phone v, address := u_address v\<rparr>
                   else r) (profiles_table db)\<rparr>"

text \<open>
  What the pages do besides changing their state: toasts, navigation, and the writes
  they send to the store (whether or not the store accepts them).
\<close>

datatype effect =
    toast_error string
  | toast_success string
  | navigate string
  | store_write request

text \<open>\<open>error instanceof Error ? error.message : fallback\<close>\<close>

definition error_message :: "store_error \<Rightarrow> string \<Rightarrow> string" where
  "error_message e fallback = (if instanceof_Error e then message e else fallback)"

section \<open>Market: the catalog listing and the browse filter\<close>

record Market_farm =
  mf_farm_name :: string
  mf_farm_location :: string
  mf_rating :: "number option"

record Market_Product = products_row +
  farm_profiles :: Market_farm

record Market_state =
  products :: "Market_Product list"
  loading :: bool
  search :: string
  typeFilter :: string

definition Market_initial :: Market_state where
  "Market_initial = \<lparr>products = [], loading = True, search = [], typeFilter = ''all''\<rparr>"

text \<open>\<open>[...new Set(xs)]\<close>: the distinct elements, each at its first occurrence.\<close>

fun new_Set :: "'a list \<Rightarrow> 'a list \<Rightarrow> 'a list" where
  "new_Set seen [] = rev seen"
| "new_Set seen (x # xs) = (if x \<in> set seen then new_Set seen xs else new_Set (x # seen) xs)"

text \<open>\<open>new Map(entries)\<close>: a later entry replaces an earlier one with the same key.\<close>

fun new_Map :: "('k \<times> 'v) list \<Rightarrow> ('k \<rightharpoonup> 'v)" where
  "new_Map [] = Map.empty"
| "new_Map ((k, v) # kvs) = (\<lambda>k'. case new_Map kvs k' of Some v' \<Rightarrow> Some v' | None \<Rightarrow> (if k' = k then Some v else None))"

text \<open>
  \<open>select("user_id, farm_name, farm_location, rating")\<close>: the row's \<open>user_id\<close>, paired
  with the three columns that the view's \<open>Product\<close> type declares.
\<close>

definition select_farm :: "farm_profiles_row \<Rightarrow> string \<times> Market_farm" where
  "select_farm f =
     (user_id f, \<lparr>mf_farm_name = farm_name f, mf_farm_location = farm_location f, mf_rating = rating f\<rparr>)"

definition Unknown_Farm :: Market_farm where
  "Unknown_Farm = \<lparr>mf_farm_name = ''Unknown Farm'', mf_farm_location = ''Unknown'', mf_rating = Some (Num 0)\<rparr>"

text \<open>\<open>{ ...p, farm_profiles: f }\<close>\<close>

definition with_farm :: "products_row \<Rightarrow> Market_farm \<Rightarrow> Market_Product" where
  "with_farm p f = products_row.extend p (Market_Product.fields f)"

definition fetchProducts ::
  "database \<Rightarrow> store_error option \<Rightarrow> store_error option \<Rightarrow> Market_state \<Rightarrow> Market_state \<times> effect list" where
  "fetchProducts db e1 e2 st =
     (case respond e1 (order_ascending harvest_date (eq is_active (Some True) (products_table db))) of
        Inl productsError \<Rightarrow> (st\<lparr>loading := False\<rparr>, [toast_error ''Failed to load products''])
      | Inr productsData \<Rightarrow>
          (let farmIds = new_Set [] (map farm_id productsData) in
           case respond e2 (map select_farm (in_list user_id farmIds (farm_profiles_table db))) of
             Inl farmsError \<Rightarrow> (st\<lparr>loading := False\<rparr>, [toast_error ''Failed to load products''])
           | Inr farmsData \<Rightarrow>
               (let farmMap = new_Map farmsData;
                    productsWithFarms =
                      map (\<lambda>p. with_farm p (case farmMap (farm_id p) of
                                                Some f \<Rightarrow> f
                                              | None \<Rightarrow> Unknown_Farm)) productsData
                in (st\<lparr>products := productsWithFarms, loading := False\<rparr>, []))))"

definition matches :: "builtins \<Rightarrow> string \<Rightarrow> string \<Rightarrow> Market_Product \<Rightarrow> bool" where
  "matches js search_text type_filter p =
     (let matchesSearch =
            (includes_str (toLowerCase js (name p)) (toLowerCase js search_text) \<or>
             includes_str (toLowerCase js (mf_farm_name (farm_profiles p)))
               (toLowerCase js search_text));
          matchesType = (type_filter = ''all'' \<or> product_type_text (product_type p) = type_filter)
      in matchesSearch \<and> matchesType)"

definition filteredProducts :: "builtins \<Rightarrow> Market_state \<Rightarrow> Market_Product list" where
  "filteredProducts js st = filter (matches js (search st) (typeFilter st)) (products st)"

section \<open>ProductDetail: the lookup of one product\<close>

record Detail_farm =
  df_id :: string
  df_farm_name :: string
  df_farm_location :: string
  df_rating :: "number option"
  df_verified :: "bool option"

record Detail_Product = products_row +
  detail_farm_profiles :: "Detail_farm option"

record ProductDetail_state =
  pd_loading :: bool
  product :: "Detail_Product option"

definition ProductDetail_initial :: ProductDetail_state where
  "ProductDetail_initial = \<lparr>pd_loading = True, product = None\<rparr>"

text \<open>\<open>select("id, farm_name, farm_location, rating, verified")\<close>\<close>

definition select_detail_farm :: "farm_profiles_row \<Rightarrow> Detail_farm" where
  "select_detail_farm f =
     \<lparr>df_id = fp_id f, df_farm_name = farm_name f, df_farm_location = farm_location f,
      df_rating = rating f, df_verified = verified f\<rparr>"

text \<open>\<open>{ ...productData, farm_profiles: farmData }\<close>\<close>

definition with_detail_farm :: "products_row \<Rightarrow> Detail_farm option \<Rightarrow> Detail_Product" where
  "with_detail_farm p f = products_row.extend p (Detail_Product.fields f)"

text \<open>A query that ends in \<open>maybeSingle()\<close>: the call may fail, or the rows may be too many.\<close>

definition maybeSingle_call :: "store_error option \<Rightarrow> 'r list \<Rightarrow> store_error + 'r option" where
  "maybeSingle_call e rows = (case respond e rows of Inl err \<Rightarrow> Inl err | Inr rs \<Rightarrow> maybeSingle rs)"

text \<open>The \<open>catch\<close> and \<open>finally\<close> of \<open>loadProduct\<close>.\<close>

definition loadProduct_failed ::
  "store_error \<Rightarrow> ProductDetail_state \<Rightarrow> ProductDetail_state \<times> effect list" where
  "loadProduct_failed err st =
     (st\<lparr>pd_loading := False\<rparr>,
      [toast_error (error_message err ''Failed to load product''), navigate ''/market''])"

definition loadProduct ::
  "database \<Rightarrow> store_error option \<Rightarrow> store_error option \<Rightarrow> string \<Rightarrow>
   ProductDetail_state \<Rightarrow> ProductDetail_state \<times> effect list" where
  "loadProduct db e1 e2 pid st =
     (case maybeSingle_call e1 (eq is_active (Some True) (eq id pid (products_table db))) of
        Inl productError \<Rightarrow> loadProduct_failed productError st
      | Inr None \<Rightarrow>
          (st\<lparr>pd_loading := False\<rparr>, [toast_error ''Product not found'', navigate ''/market''])
      | Inr (Some productData) \<Rightarrow>
          (case maybeSingle_call e2
                  (map select_detail_farm (eq fp_id (farm_id productData) (farm_profiles_table db))) of
             Inl farmError \<Rightarrow> loadProduct_failed farmError st
           | Inr farmData \<Rightarrow>
               (st\<lparr>product := Some (with_detail_farm productData farmData), pd_loading := False\<rparr>,
                [])))"

section \<open>AddProduct: creating a product\<close>

record formData =
  fd_name :: string
  fd_description :: string
  fd_product_type :: product_type
  fd_price_per_unit :: string
  fd_available_quantity :: string
  fd_unit :: string
  fd_harvest_date :: string
  fd_expiry_date :: string
  fd_image_url :: string

record AddProduct_state =
  ap_loading :: bool
  submitting :: bool
  farmId :: "string option"
  formData :: formData

text \<open>\<open>!farmId\<close> on \<open>string | null\<close>: \<open>null\<close> and the empty string are falsy.\<close>

fun truthy :: "string option \<Rightarrow> string option" where
  "truthy None = None"
| "truthy (Some s) = (if s = [] then None else Some s)"

definition handleSubmit ::
  "builtins \<Rightarrow> store_error option \<Rightarrow> store_defaults \<Rightarrow> AddProduct_state \<Rightarrow> database \<Rightarrow>
   AddProduct_state \<times> database \<times> effect list" where
  "handleSubmit js e d st db =
     (let fd = formData st;
          price = parseFloat js (fd_price_per_unit fd);
          quantity = parseInt js (fd_available_quantity fd)
      in case truthy (farmId st) of
           None \<Rightarrow> (st, db, [toast_error ''No farm profile found''])
         | Some fid \<Rightarrow>
             (if trim js (fd_name fd) = [] then
                (st, db, [toast_error ''Product name is required''])
              else if isNaN price \<or> le_zero price then
                (st, db, [toast_error ''Price must be greater than 0''])
              else if isNaN quantity \<or> le_zero quantity then
                (st, db, [toast_error ''Quantity must be greater than 0''])
              else if fd_harvest_date fd = [] then
                (st, db, [toast_error ''Harvest date is required''])
              else
                (let row = \<lparr>i_farm_id = fid, i_name = trim js (fd_name fd),
                            i_description = or_null (trim js (fd_description fd)),
                            i_product_type = fd_product_type fd,
                            i_price_per_unit = price, i_available_quantity = quantity,
                            i_unit = fd_unit fd, i_harvest_date = fd_harvest_date fd,
                            i_expiry_date = or_null (fd_expiry_date fd),
                            i_image_url = or_null (trim js (fd_image_url fd)),
                            i_is_active = True\<rparr>
                 in (case respond e (perform d (insert_products row) db) of
                       Inl err \<Rightarrow>
                         (st\<lparr>submitting := False\<rparr>, db,
                          [store_write (insert_products row),
                           toast_error (error_message err ''Failed to add product'')])
                     | Inr db' \<Rightarrow>
                         (st\<lparr>submitting := False\<rparr>, db',
                          [store_write (insert_products row),
                           toast_success ''Product added successfully'',
                           navigate ''/farm/products''])))))"

section \<open>ManageProducts: activating, deactivating and deleting\<close>

record Manage_Product =
  m_id :: string
  m_name :: string
  m_product_type :: product_type
  m_price_per_unit :: number
  m_available_quantity :: number
  m_unit :: string
  m_harvest_date :: string
  m_is_active :: "bool option"

record ManageProducts_state =
  mp_loading :: bool
  mp_products :: "Manage_Product list"
  mp_farmId :: "string option"

text \<open>\<open>!currentState\<close> on \<open>boolean | null\<close>: only \<open>true\<close> is truthy.\<close>

definition js_not :: "bool option \<Rightarrow> bool" where
  "js_not b = (b \<noteq> Some True)"

definition toggleActive ::
  "store_error option \<Rightarrow> store_defaults \<Rightarrow> string \<Rightarrow> bool option \<Rightarrow>
   ManageProducts_state \<Rightarrow> database \<Rightarrow> ManageProducts_state \<times> database \<times> effect list" where
  "toggleActive e d productId currentState st db =
     (let write = update_products_is_active (js_not currentState) productId
      in (case respond e (perform d write db) of
            Inl err \<Rightarrow>
              (st, db,
               [store_write write, toast_error (error_message err ''Failed to update product'')])
          | Inr db' \<Rightarrow>
              (st\<lparr>mp_products :=
                    map (\<lambda>p. if m_id p = productId
                             then p\<lparr>m_is_active := Some (js_not currentState)\<rparr> else p)
                        (mp_products st)\<rparr>,
               db',
               [store_write write,
                toast_success (if js_not currentState then ''Product activated''
                               else ''Product deactivated'')])))"

text \<open>\<open>agreed\<close> is the answer to the \<open>confirm(...)\<close> dialog.\<close>

definition deleteProduct ::
  "bool \<Rightarrow> store_error option \<Rightarrow> store_defaults \<Rightarrow> string \<Rightarrow>
   ManageProducts_state \<Rightarrow> database \<Rightarrow> ManageProducts_state \<times> database \<times> effect list" where
  "deleteProduct agreed e d productId st db =
     (if \<not> agreed then (st, db, [])
      else
        (let write = update_products_is_active False productId
         in (case respond e (perform d write db) of
               Inl err \<Rightarrow>
                 (st, db,
                  [store_write write, toast_error (error_message err ''Failed to delete product'')])
             | Inr db' \<Rightarrow>
                 (st\<lparr>mp_products := filter (\<lambda>p. m_id p \<noteq> productId) (mp_products st)\<rparr>,
                  db',
                  [store_write write, toast_success ''Product deleted'']))))"

section \<open>UpdateProfile: saving the account and the farm profile\<close>

record profileForm =
  pf_full_name :: string
  pf_phone :: string
  pf_address :: string

record farmForm =
  ff_farm_name :: string
  ff_farm_location :: string
  ff_farm_description :: string

record UpdateProfile_state =
  up_loading :: bool
  saving :: bool
  profile :: "profiles_row option"
  farmProfile :: "farm_profiles_row option"
  isFarm :: bool
  profileForm :: profileForm
  farmForm :: farmForm

definition saveProfile ::
  "builtins \<Rightarrow> store_error option \<Rightarrow> store_defaults \<Rightarrow> UpdateProfile_state \<Rightarrow> database \<Rightarrow>
   UpdateProfile_state \<times> database \<times> effect list" where
  "saveProfile js e d st db =
     (case profile st of
        None \<Rightarrow> (st, db, [])
      | Some pr \<Rightarrow>
          (if trim js (pf_full_name (profileForm st)) = [] then
             (st, db, [toast_error ''Name is required''])
           else
             (let write = update_profiles
                            \<lparr>u_full_name = trim js (pf_full_name (profileForm st)),
                             u_phone = or_null (trim js (pf_phone (profileForm st))),
                             u_address = or_null (trim js (pf_address (profileForm st)))\<rparr>
                            (pr_id pr)
              in (case respond e (perform d write db) of
                    Inl err \<Rightarrow>
                      (st\<lparr>saving := False\<rparr>, db,
                       [store_write write,
                        toast_error (error_message err ''Failed to update profile'')])
                  | Inr db' \<Rightarrow>
                      (st\<lparr>saving := False\<rparr>, db',
                       [store_write write, toast_success ''Profile updated''])))))"

definition saveFarmProfile ::
  "builtins \<Rightarrow> store_error option \<Rightarrow> store_defaults \<Rightarrow> UpdateProfile_state \<Rightarrow> database \<Rightarrow>
   UpdateProfile_state \<times> database \<times> effect list" where
  "saveFarmProfile js e d st db =
     (case farmProfile st of
        None \<Rightarrow> (st, db, [])
      | Some fp \<Rightarrow>
          (if trim js (ff_farm_name (farmForm st)) = [] then
             (st, db, [toast_error ''Farm name is required''])
           else if trim js (ff_farm_location (farmForm st)) = [] then
             (st, db, [toast_error ''Farm location is required''])
           else
             (let write = update_farm_profiles
                            \<lparr>u_farm_name = trim js (ff_farm_name (farmForm st)),
                             u_farm_location = trim js (ff_farm_location (farmForm st)),
                             u_farm_description = or_null (trim js (ff_farm_description (farmForm st)))\<rparr>
                            (fp_id fp)
              in (case respond e (perform d write db) of
                    Inl err \<Rightarrow>
                      (st\<lparr>saving := False\<rparr>, db,
                       [store_write write,
                        toast_error (error_message err ''Failed to update farm profile'')])
                  | Inr db' \<Rightarrow>
                      (st\<lparr>saving := False\<rparr>, db',
                       [store_write write, toast_success ''Farm profile updated''])))))"

section \<open>The writes of the whole program\<close>

text \<open>
  One step of the program on the store: a call of one of the five operations of the
  source that write to it. Every other operation of the source only reads.
\<close>

inductive program_step :: "database \<Rightarrow> database \<Rightarrow> bool" where
  step_handleSubmit:
    "handleSubmit js e d ast db = (ast', db', fx) \<Longrightarrow> program_step db db'"
| step_toggleActive:
    "toggleActive e d productId currentState mst db = (mst', db', fx) \<Longrightarrow> program_step db db'"
| step_deleteProduct:
    "deleteProduct agreed e d productId mst db = (mst', db', fx) \<Longrightarrow> program_step db db'"
| step_saveProfile:
    "saveProfile js e d ust db = (ust', db', fx) \<Longrightarrow> program_step db db'"
| step_saveFarmProfile:
    "saveFarmProfile js e d ust db = (ust', db', fx) \<Longrightarrow> program_step db db'"

section \<open>The built-ins on plain text\<close>

text \<open>
  To run the operations on examples, the built-ins are computed here for plain text:
  strings whose code units are below 256, one \<open>char\<close> each. No theorem about an
  operation depends on these definitions; the examples use them on such text only.

  White space below 256 is tab, line feed, vertical tab, form feed, carriage return,
  space and the no-break space; the cased letters below 256 are \<open>A\<close> to \<open>Z\<close> and the
  letters \<open>0xC0\<close> to \<open>0xDE\<close> without the multiplication sign \<open>0xD7\<close>, each 32 below its
  lower-case letter.
\<close>

definition isWhiteSpace :: "char \<Rightarrow> bool" where
  "isWhiteSpace c =
     (c \<in> set [CHR 0x09, CHR 0x0A, CHR 0x0B, CHR 0x0C, CHR 0x0D, CHR 0x20, CHR 0xA0])"

definition plain_trimStart :: "string \<Rightarrow> string" where
  "plain_trimStart s = dropWhile isWhiteSpace s"

definition plain_trim :: "string \<Rightarrow> string" where
  "plain_trim s = rev (dropWhile isWhiteSpace (rev (dropWhile isWhiteSpace s)))"

definition upper_case_letters :: string where
  "upper_case_letters =
     ''ABCDEFGHIJKLMNOPQRSTUVWXYZ'' @
       [CHR 0xC0, CHR 0xC1, CHR 0xC2, CHR 0xC3, CHR 0xC4, CHR 0xC5, CHR 0xC6, CHR 0xC7,
        CHR 0xC8, CHR 0xC9, CHR 0xCA, CHR 0xCB, CHR 0xCC, CHR 0xCD, CHR 0xCE, CHR 0xCF,
        CHR 0xD0, CHR 0xD1, CHR 0xD2, CHR 0xD3, CHR 0xD4, CHR 0xD5, CHR 0xD6, CHR 0xD8,
        CHR 0xD9, CHR 0xDA, CHR 0xDB, CHR 0xDC, CHR 0xDD, CHR 0xDE]"

definition lower_case_letters :: string where
  "lower_case_letters =
     ''abcdefghijklmnopqrstuvwxyz'' @
       [CHR 0xE0, CHR 0xE1, CHR 0xE2, CHR 0xE3, CHR 0xE4, CHR 0xE5, CHR 0xE6, CHR 0xE7,
        CHR 0xE8, CHR 0xE9, CHR 0xEA, CHR 0xEB, CHR 0xEC, CHR 0xED, CHR 0xEE, CHR 0xEF,
        CHR 0xF0, CHR 0xF1, CHR 0xF2, CHR 0xF3, CHR 0xF4, CHR 0xF5, CHR 0xF6, CHR 0xF8,
        CHR 0xF9, CHR 0xFA, CHR 0xFB, CHR 0xFC, CHR 0xFD, CHR 0xFE]"

definition plain_toLowerChar :: "char \<Rightarrow> char" where
  "plain_toLowerChar c =
     (case map_of (zip upper_case_letters lower_case_letters) c of
        Some l \<Rightarrow> l
      | None \<Rightarrow> c)"

definition plain_toLowerCase :: "string \<Rightarrow> string" where
  "plain_toLowerCase s = map plain_toLowerChar s"

text \<open>
  The Number value of a positive ratio \<open>p / q\<close>: the nearest double, ties going to the
  even significand; a value that rounds to \<open>2^1024\<close> or more is an infinity, one that
  rounds to less than half of the least double \<open>2^-1074\<close> is zero. The binary exponent
  of the ratio is found from the lengths of \<open>p\<close> and \<open>q\<close> in bits, and is not taken
  below \<open>-1022\<close>, where the doubles stop getting denser; the significand is the ratio
  counted in units of \<open>2^(e - 52)\<close>.
\<close>

fun bit_length :: "nat \<Rightarrow> nat" where
  "bit_length n = (if n = 0 then 0 else 1 + bit_length (n div 2))"

declare bit_length.simps [simp del]

definition pow2 :: "int \<Rightarrow> rat" where
  "pow2 k = (if 0 \<le> k then 2 ^ nat k else 1 / 2 ^ nat (- k))"

definition round_ratio :: "nat \<Rightarrow> nat \<Rightarrow> nat" where
  "round_ratio p q =
     (let n = p div q; r = p mod q
      in if 2 * r < q then n
         else if q < 2 * r then n + 1
         else if even n then n else n + 1)"

definition to_double :: "bool \<Rightarrow> nat \<Rightarrow> nat \<Rightarrow> number" where
  "to_double negative p q =
     (if p = 0 then Num 0
      else
        (let d = int (bit_length p) - int (bit_length q);
             k = (if q * 2 ^ nat d \<le> p * 2 ^ nat (- d) then d else d - 1);
             e = max k (- 1022);
             n = round_ratio (p * 2 ^ nat (52 - e)) (q * 2 ^ nat (e - 52));
             v = of_nat n * pow2 (e - 52)
         in if pow2 1024 \<le> v then (if negative then NegInfinity else PosInfinity)
            else if negative then Num (- v)
            else Num v))"

text \<open>
  \<open>parseInt(s)\<close> with no radix: leading white space is skipped, a sign is read, a
  \<open>0x\<close> prefix selects base 16, and the longest run of digits that follows is the
  value, rounded to a double; whatever comes after that run is ignored. No digit at
  all gives \<open>NaN\<close>.
\<close>

definition digit_of :: "nat \<Rightarrow> char \<Rightarrow> nat option" where
  "digit_of R c =
     (let v = (if CHR ''0'' \<le> c \<and> c \<le> CHR ''9'' then Some (of_char c - (48::nat))
               else if CHR ''a'' \<le> c \<and> c \<le> CHR ''z'' then Some (of_char c - (87::nat))
               else if CHR ''A'' \<le> c \<and> c \<le> CHR ''Z'' then Some (of_char c - (55::nat))
               else None)
      in case v of Some n \<Rightarrow> (if n < R then Some n else None) | None \<Rightarrow> None)"

fun leading_digits :: "nat \<Rightarrow> string \<Rightarrow> nat list" where
  "leading_digits R [] = []"
| "leading_digits R (c # cs) =
     (case digit_of R c of Some n \<Rightarrow> n # leading_digits R cs | None \<Rightarrow> [])"

definition digits_value :: "nat \<Rightarrow> nat list \<Rightarrow> nat" where
  "digits_value R ds = foldl (\<lambda>acc n. acc * R + n) 0 ds"

definition plain_parseInt :: "string \<Rightarrow> number" where
  "plain_parseInt inputString =
     (let S = plain_trimStart inputString;
          negative = (case S of c # rest \<Rightarrow> c = CHR ''-'' | [] \<Rightarrow> False);
          S = (case S of c # rest \<Rightarrow> (if c = CHR ''+'' \<or> c = CHR ''-'' then rest else S) | [] \<Rightarrow> S);
          hex = (take 2 S = ''0x'' \<or> take 2 S = ''0X'');
          R = (if hex then 16 else 10);
          S = (if hex then drop 2 S else S);
          Z = leading_digits R S
      in if Z = [] then NaN else to_double negative (digits_value R Z) 1)"

text \<open>
  \<open>parseFloat(s)\<close>: leading white space is skipped and the longest prefix that is a
  decimal literal is the value: a sign, then \<open>Infinity\<close> or digits with an optional
  fraction and an optional exponent. There must be a digit before or after the point;
  an exponent counts only when a digit follows it. The value of the literal, its
  digits times a power of ten, is rounded to a double.
\<close>

definition exponent_part :: "string \<Rightarrow> int" where
  "exponent_part S =
     (case S of
        [] \<Rightarrow> 0
      | c # rest \<Rightarrow>
          (if c = CHR ''e'' \<or> c = CHR ''E'' then
             (case rest of
                [] \<Rightarrow> 0
              | g # ds \<Rightarrow>
                  (if g = CHR ''-'' then - int (digits_value 10 (leading_digits 10 ds))
                   else if g = CHR ''+'' then int (digits_value 10 (leading_digits 10 ds))
                   else int (digits_value 10 (leading_digits 10 rest))))
           else 0))"

definition plain_parseFloat :: "string \<Rightarrow> number" where
  "plain_parseFloat inputString =
     (let S = plain_trimStart inputString;
          negative = (case S of c # rest \<Rightarrow> c = CHR ''-'' | [] \<Rightarrow> False);
          S = (case S of c # rest \<Rightarrow> (if c = CHR ''+'' \<or> c = CHR ''-'' then rest else S) | [] \<Rightarrow> S)
      in if startsWith S ''Infinity'' then (if negative then NegInfinity else PosInfinity)
         else
           (let I = leading_digits 10 S;
                S = drop (length I) S;
                point = (case S of c # rest \<Rightarrow> c = CHR ''.'' | [] \<Rightarrow> False);
                F = (if point then leading_digits 10 (drop 1 S) else []);
                S = (if point \<and> (I \<noteq> [] \<or> F \<noteq> []) then drop (1 + length F) S else S);
                ex = exponent_part S - int (length F)
            in if I = [] \<and> F = [] then NaN
               else to_double negative (digits_value 10 (I @ F) * 10 ^ nat ex) (10 ^ nat (- ex))))"

definition plain_text :: builtins where
  "plain_text =
     \<lparr>trim = plain_trim, toLowerCase = plain_toLowerCase,
      parseFloat = plain_parseFloat, parseInt = plain_parseInt\<rparr>"

section \<open>Example data\<close>

text \<open>
  A small store: one farm, whose profile \<open>id\<close> differs from the \<open>user_id\<close> of its
  owner, and three of its products, one of them deactivated.
\<close>

definition sunny_farm :: farm_profiles_row where
  "sunny_farm =
     \<lparr>fp_created_at = None, farm_description = Some ''Family farm'', farm_image_url = None,
      farm_location = ''Chiang Mai'', farm_name = ''Sunny Farm'', fp_id = ''farm-1'',
      rating = Some (Num (9 / 2)), total_reviews = Some (Num 2), total_sales = Some (Num 300),
      fp_updated_at = None, user_id = ''user-1'', verified = Some True\<rparr>"

definition gros_michel :: products_row where
  "gros_michel =
     \<lparr>available_quantity = Num 5, created_at = None, cultivar_id = None, description = None,
      expiry_date = None, farm_id = ''farm-1'', harvest_date = ''2024-05-10'', id = ''prod-1'',
      image_url = None, is_active = Some True, name = ''Gros Michel'', price_per_unit = Num 50,
      product_type = fruit, unit = ''kg'', updated_at = None\<rparr>"

definition retired_shoot :: products_row where
  "retired_shoot =
     gros_michel\<lparr>id := ''prod-2'', name := ''Old Shoot'', product_type := shoot,
                   harvest_date := ''2024-04-01'', is_active := Some False\<rparr>"

definition early_bunch :: products_row where
  "early_bunch =
     gros_michel\<lparr>id := ''prod-3'', name := ''Early Bunch'', harvest_date := ''2024-03-01''\<rparr>"

definition example_store :: database where
  "example_store =
     \<lparr>products_table = [gros_michel, retired_shoot, early_bunch],
      farm_profiles_table = [sunny_farm], profiles_table = [], orders_table = []\<rparr>"

definition example_defaults :: store_defaults where
  "example_defaults = \<lparr>new_id = ''prod-4'', new_created_at = None, new_updated_at = None\<rparr>"

definition example_form :: formData where
  "example_form =
     \<lparr>fd_name = ''Lady Finger'', fd_description = [], fd_product_type = fruit,
      fd_price_per_unit = ''45.50'', fd_available_quantity = ''12'', fd_unit = ''kg'',
      fd_harvest_date = ''2024-05-10'', fd_expiry_date = [], fd_image_url = []\<rparr>"

definition example_AddProduct :: AddProduct_state where
  "example_AddProduct =
     \<lparr>ap_loading = False, submitting = False, farmId = Some ''farm-1'', formData = example_form\<rparr>"

definition example_ManageProducts :: ManageProducts_state where
  "example_ManageProducts =
     \<lparr>mp_loading = False,
      mp_products =
        [\<lparr>m_id = ''prod-1'', m_name = ''Gros Michel'', m_product_type = fruit,
          m_price_per_unit = Num 50, m_available_quantity = Num 5, m_unit = ''kg'',
          m_harvest_date = ''2024-05-10'', m_is_active = Some True\<rparr>],
      mp_farmId = Some ''farm-1''\<rparr>"

definition example_UpdateProfile :: UpdateProfile_state where
  "example_UpdateProfile =
     \<lparr>up_loading = False, saving = False, profile = None, farmProfile = Some sunny_farm,
      isFarm = True,
      profileForm = \<lparr>pf_full_name = [], pf_phone = [], pf_address = []\<rparr>,
      farmForm = \<lparr>ff_farm_name = '' Sunny Farm 2 '', ff_farm_location = ''Lamphun'',
                  ff_farm_description = []\<rparr>\<rparr>"

text \<open>The market page with two loaded products, a search text and a type filter.\<close>

definition example_Market :: "string \<Rightarrow> string \<Rightarrow> Market_state" where
  "example_Market s t =
     \<lparr>products = [with_farm gros_michel Unknown_Farm, with_farm retired_shoot Unknown_Farm],
      loading = False, search = s, typeFilter = t\<rparr>"

text \<open>The form with a quantity that is not a whole number.\<close>

definition fractional_quantity :: AddProduct_state where
  "fractional_quantity =
     example_AddProduct\<lparr>formData := example_form\<lparr>fd_available_quantity := ''3.7''\<rparr>\<rparr>"

text \<open>The form with an expiry date nine days before the harvest date.\<close>

definition expiry_before_harvest :: AddProduct_state where
  "expiry_before_harvest =
     example_AddProduct\<lparr>formData := example_form\<lparr>fd_expiry_date := ''2024-05-01''\<rparr>\<rparr>"

lemmas example_defs =
  example_store_def gros_michel_def retired_shoot_def early_bunch_def sunny_farm_def

lemmas query_defs = eq_def order_ascending_def in_list_def select_farm_def

section \<open>The order status enum\<close>

lemma order_status_UNIV: "(UNIV :: order_status set) = set order_status_values"
proof -
  have "x \<in> set order_status_values" for x :: order_status
    by (cases x) (simp_all add: order_status_values_def)
  then show ?thesis by blast
qed

lemma range_status: "range (status :: orders_row \<Rightarrow> order_status) = UNIV"
proof -
  have "x \<in> range (status :: orders_row \<Rightarrow> order_status)" for x :: order_status
  proof -
    have "status \<lparr>cancellation_reason = None, cancelled_at = None, confirmed_at = None,
            o_created_at = None, delivered_at = None, delivery_address = [],
            delivery_notes = None, o_farm_id = [], o_id = [], product_id = [],
            quantity = Num 1, shipped_at = None, status = x, total_price = Num 0,
            tracking_number = None, o_updated_at = None, o_user_id = []\<rparr> = x"
      by simp
    then show ?thesis by (metis rangeI)
  qed
  then show ?thesis by blast
qed

text \<open>
  C8, as the claim states it, fails: the status of an order does not range over five
  values. The values that the \<open>status\<close> field of an order takes are not five in number.
\<close>

theorem order_status_five_counterexample:
  "card (range (status :: orders_row \<Rightarrow> order_status)) \<noteq> 5"
  by (simp add: range_status order_status_UNIV order_status_values_def)

text \<open>
  C8, amended: the order status enum is a six-value enum. The status of an order ranges
  over exactly the six values \<open>pending\<close>, \<open>confirmed\<close>, \<open>shipped\<close>, \<open>delivered\<close>,
  \<open>cancelled\<close> and \<open>reviewed\<close> that the source lists, each listed once.
\<close>

theorem order_status_six_values:
  "range (status :: orders_row \<Rightarrow> order_status) = set order_status_values \<and>
   distinct order_status_values \<and> length order_status_values = 6 \<and>
   card (range (status :: orders_row \<Rightarrow> order_status)) = 6"
  by (simp add: range_status order_status_UNIV order_status_values_def)

section \<open>The catalog listing\<close>

lemma truncate_with_farm: "products_row.truncate (with_farm p f) = p"
  by (cases p) (simp add: with_farm_def products_row.defs Market_Product.defs)

lemma farm_profiles_with_farm: "farm_profiles (with_farm p f) = f"
  by (cases p) (simp add: with_farm_def products_row.defs Market_Product.defs)

lemma farm_id_with_farm: "farm_id (with_farm p f) = farm_id p"
  by (cases p) (simp add: with_farm_def products_row.defs Market_Product.defs)

lemma truncate_fields:
  "harvest_date (products_row.truncate v) = harvest_date v"
  "is_active (products_row.truncate v) = is_active v"
  "farm_id (products_row.truncate v) = farm_id v"
  by (cases v; simp add: products_row.defs)+

lemma new_Map_None: "new_Map kvs k = None \<longleftrightarrow> k \<notin> fst ` set kvs"
  by (induction kvs rule: new_Map.induct) (auto split: option.splits)

lemma fst_select_farm: "fst (select_farm f) = user_id f"
  by (simp add: select_farm_def)

text \<open>When either call fails the page keeps its list and shows one toast.\<close>

lemma fetchProducts_failed:
  "e1 \<noteq> None \<or> e2 \<noteq> None \<Longrightarrow>
   fetchProducts db e1 e2 st = (st\<lparr>loading := False\<rparr>, [toast_error ''Failed to load products''])"
  by (cases e1; cases e2) (simp_all add: fetchProducts_def Let_def)

lemma fetchProducts_answered:
  "fetchProducts db None None st =
     (st\<lparr>products :=
           map (\<lambda>p. with_farm p
                  (case new_Map (map select_farm
                          (in_list user_id
                             (new_Set [] (map farm_id
                                (order_ascending harvest_date
                                   (eq is_active (Some True) (products_table db)))))
                             (farm_profiles_table db))) (farm_id p) of
                     Some f \<Rightarrow> f | None \<Rightarrow> Unknown_Farm))
               (order_ascending harvest_date (eq is_active (Some True) (products_table db))),
         loading := False\<rparr>, [])"
  by (simp add: fetchProducts_def Let_def)

text \<open>Without their farm, the listed products are the active rows in harvest order.\<close>

lemma fetchProducts_rows:
  "map products_row.truncate (products (fst (fetchProducts db None None st))) =
     order_ascending harvest_date (eq is_active (Some True) (products_table db))"
  by (simp add: fetchProducts_answered o_def truncate_with_farm)

lemma fetchProducts_rows_any:
  "products (fst (fetchProducts db e1 e2 Market_initial)) = [] \<or>
   map products_row.truncate (products (fst (fetchProducts db e1 e2 Market_initial))) =
     order_ascending harvest_date (eq is_active (Some True) (products_table db))"
proof (cases "e1 = None \<and> e2 = None")
  case True
  then show ?thesis using fetchProducts_rows by simp
next
  case False
  then show ?thesis by (simp add: fetchProducts_failed Market_initial_def)
qed

text \<open>
  C2: whatever the store holds and however its two calls end, every product that
  \<open>fetchProducts\<close> leaves in the list of the freshly opened market page has
  \<open>is_active = true\<close>; a row of the products table whose \<open>is_active\<close> is not \<open>true\<close>
  (\<open>false\<close> or \<open>null\<close>) is not among the listed products; and the list is in ascending
  order of \<open>harvest_date\<close>.
\<close>

theorem fetchProducts_active_ascending:
  "(\<forall>p \<in> set (products (fst (fetchProducts db e1 e2 Market_initial))). is_active p = Some True) \<and>
   (\<forall>r \<in> set (products_table db). is_active r \<noteq> Some True \<longrightarrow>
      r \<notin> products_row.truncate ` set (products (fst (fetchProducts db e1 e2 Market_initial)))) \<and>
   sorted (map harvest_date (products (fst (fetchProducts db e1 e2 Market_initial))))"
proof -
  let ?vs = "products (fst (fetchProducts db e1 e2 Market_initial))"
  let ?rows = "order_ascending harvest_date (eq is_active (Some True) (products_table db))"
  consider (none) "?vs = []" | (rows) "map products_row.truncate ?vs = ?rows"
    using fetchProducts_rows_any by blast
  then show ?thesis
  proof cases
    case none
    then show ?thesis by simp
  next
    case rows
    have set_rows: "products_row.truncate ` set ?vs = set ?rows"
      using rows by (metis set_map)
    have active: "\<forall>r \<in> set ?rows. is_active r = Some True"
      by (simp add: order_ascending_def eq_def)
    have a: "\<forall>p \<in> set ?vs. is_active p = Some True"
    proof
      fix p assume "p \<in> set ?vs"
      then have "products_row.truncate p \<in> set ?rows" using set_rows by blast
      then show "is_active p = Some True" using active truncate_fields(2) by metis
    qed
    have b: "\<forall>r \<in> set (products_table db). is_active r \<noteq> Some True \<longrightarrow>
               r \<notin> products_row.truncate ` set ?vs"
      using set_rows active by auto
    have "map harvest_date ?vs = map harvest_date (map products_row.truncate ?vs)"
      by (simp add: o_def truncate_fields)
    also have "\<dots> = map harvest_date ?rows" using rows by simp
    finally have c: "sorted (map harvest_date ?vs)"
      by (simp add: order_ascending_def)
    from a b c show ?thesis by blast
  qed
qed

text \<open>
  On the example store the listing holds the two active products, the earlier harvest
  first, and not the deactivated one.
\<close>

theorem fetchProducts_active_ascending_witness:
  "map id (products (fst (fetchProducts example_store None None Market_initial))) =
     [''prod-3'', ''prod-1''] \<and>
   retired_shoot \<in> set (products_table example_store) \<and> is_active retired_shoot \<noteq> Some True \<and>
   list_all (\<lambda>p. is_active p = Some True)
     (products (fst (fetchProducts example_store None None Market_initial))) \<and>
   retired_shoot \<notin>
     products_row.truncate ` set (products (fst (fetchProducts example_store None None Market_initial))) \<and>
   sorted (map harvest_date (products (fst (fetchProducts example_store None None Market_initial))))"
proof -
  have ids: "map id (products (fst (fetchProducts example_store None None Market_initial))) =
      [''prod-3'', ''prod-1'']"
    by (simp add: fetchProducts_def example_defs Market_initial_def query_defs with_farm_def
        products_row.defs Market_Product.defs)
  have mem: "retired_shoot \<in> set (products_table example_store)"
    "is_active retired_shoot \<noteq> Some True"
    by (simp_all add: example_store_def retired_shoot_def)
  show ?thesis
    unfolding list_all_iff
    using ids mem fetchProducts_active_ascending [of example_store None None] by blast
qed

text \<open>
  C10: when both calls of the store answer, the listing does not fail and drops no
  product: every active row of the products table is returned and no toast is shown;
  and a returned product whose \<open>farm_id\<close> is the \<open>user_id\<close> of no farm profile carries
  the placeholder farm \<open>Unknown Farm\<close>, \<open>Unknown\<close>, rating \<open>0\<close>.
\<close>

theorem fetchProducts_unknown_farm:
  "(\<forall>r \<in> set (products_table db). is_active r = Some True \<longrightarrow>
      r \<in> products_row.truncate ` set (products (fst (fetchProducts db None None st)))) \<and>
   snd (fetchProducts db None None st) = [] \<and>
   (\<forall>p \<in> set (products (fst (fetchProducts db None None st))).
      (\<forall>f \<in> set (farm_profiles_table db). user_id f \<noteq> farm_id p) \<longrightarrow>
      farm_profiles p = Unknown_Farm \<and>
      mf_farm_name (farm_profiles p) = ''Unknown Farm'' \<and>
      mf_farm_location (farm_profiles p) = ''Unknown'' \<and>
      mf_rating (farm_profiles p) = Some (Num 0))"
proof -
  let ?vs = "products (fst (fetchProducts db None None st))"
  let ?rows = "order_ascending harvest_date (eq is_active (Some True) (products_table db))"
  let ?fetched = "map select_farm
     (in_list user_id (new_Set [] (map farm_id ?rows)) (farm_profiles_table db))"
  have "products_row.truncate ` set ?vs = set ?rows"
    using fetchProducts_rows [of db st] by (metis set_map)
  then have kept: "\<forall>r \<in> set (products_table db). is_active r = Some True \<longrightarrow>
      r \<in> products_row.truncate ` set ?vs"
    by (simp add: order_ascending_def eq_def)
  have quiet: "snd (fetchProducts db None None st) = []"
    by (simp add: fetchProducts_answered)
  have placeholder: "\<forall>p \<in> set ?vs.
      (\<forall>f \<in> set (farm_profiles_table db). user_id f \<noteq> farm_id p) \<longrightarrow>
      farm_profiles p = Unknown_Farm \<and>
      mf_farm_name (farm_profiles p) = ''Unknown Farm'' \<and>
      mf_farm_location (farm_profiles p) = ''Unknown'' \<and>
      mf_rating (farm_profiles p) = Some (Num 0)"
  proof (intro ballI impI)
    fix p
    assume p: "p \<in> set ?vs"
      and nomatch: "\<forall>f \<in> set (farm_profiles_table db). user_id f \<noteq> farm_id p"
    from p obtain r where r: "r \<in> set ?rows"
      and p_def: "p = with_farm r (case new_Map ?fetched (farm_id r) of
                                    Some f \<Rightarrow> f | None \<Rightarrow> Unknown_Farm)"
      by (auto simp: fetchProducts_answered)
    have same: "farm_id p = farm_id r" by (simp add: p_def farm_id_with_farm)
    have "farm_id r \<notin> fst ` set ?fetched"
      using nomatch same by (auto simp: in_list_def fst_select_farm)
    then have "new_Map ?fetched (farm_id r) = None" by (simp add: new_Map_None)
    then have "farm_profiles p = Unknown_Farm" by (simp add: p_def farm_profiles_with_farm)
    then show "farm_profiles p = Unknown_Farm \<and>
      mf_farm_name (farm_profiles p) = ''Unknown Farm'' \<and>
      mf_farm_location (farm_profiles p) = ''Unknown'' \<and>
      mf_rating (farm_profiles p) = Some (Num 0)"
      by (simp add: Unknown_Farm_def)
  qed
  from kept quiet placeholder show ?thesis by blast
qed

text \<open>
  On the example store no farm profile has the \<open>farm_id\<close> of a product as its
  \<open>user_id\<close>: the active products are returned, each with the placeholder.
\<close>

theorem fetchProducts_unknown_farm_witness:
  "gros_michel \<in> set (products_table example_store) \<and> is_active gros_michel = Some True \<and>
   list_all (\<lambda>f. user_id f \<noteq> farm_id gros_michel) (farm_profiles_table example_store) \<and>
   gros_michel \<in>
     products_row.truncate ` set (products (fst (fetchProducts example_store None None Market_initial))) \<and>
   snd (fetchProducts example_store None None Market_initial) = [] \<and>
   list_all (\<lambda>p. farm_profiles p = Unknown_Farm)
     (products (fst (fetchProducts example_store None None Market_initial)))"
proof -
  have a: "gros_michel \<in> set (products_table example_store)" "is_active gros_michel = Some True"
    by (simp_all add: example_defs)
  have b: "\<forall>f \<in> set (farm_profiles_table example_store).
             \<forall>p \<in> set (products_table example_store). user_id f \<noteq> farm_id p"
    by (simp add: example_defs)
  have c: "\<forall>p \<in> set (products (fst (fetchProducts example_store None None Market_initial))).
             products_row.truncate p \<in> set (products_table example_store)"
    using fetchProducts_rows [of example_store Market_initial]
    by (metis (no_types, lifting) eq_def filter_is_subset image_eqI order_ascending_def set_map
        set_sort subsetD)
  have d: "\<forall>p \<in> set (products (fst (fetchProducts example_store None None Market_initial))).
             \<forall>f \<in> set (farm_profiles_table example_store). user_id f \<noteq> farm_id p"
    using b c truncate_fields(3) by metis
  show ?thesis
    unfolding list_all_iff
    using a b d fetchProducts_unknown_farm [of example_store Market_initial] by blast
qed

text \<open>
  C1 does not hold of \<open>fetchProducts\<close>: it looks the farm up by \<open>user_id\<close>, while the
  \<open>farm_id\<close> of a product is the \<open>id\<close> of its farm profile, as \<open>loadProduct\<close> reads it
  and as \<open>handleSubmit\<close> writes it. On the example store the product \<open>prod-1\<close> belongs to
  the farm profile \<open>farm-1\<close>, named \<open>Sunny Farm\<close>; the listing attaches \<open>Unknown Farm\<close>
  to it, and the product page attaches \<open>Sunny Farm\<close>.
\<close>

theorem fetchProducts_joins_on_user_id:
  "farm_id gros_michel = fp_id sunny_farm \<and> farm_id gros_michel \<noteq> user_id sunny_farm \<and>
   farm_name sunny_farm = ''Sunny Farm'' \<and>
   map (\<lambda>p. (id p, mf_farm_name (farm_profiles p)))
       (products (fst (fetchProducts example_store None None Market_initial))) =
     [(''prod-3'', ''Unknown Farm''), (''prod-1'', ''Unknown Farm'')] \<and>
   map_option (\<lambda>v. map_option df_farm_name (detail_farm_profiles v))
       (product (fst (loadProduct example_store None None ''prod-1'' ProductDetail_initial))) =
     Some (Some ''Sunny Farm'')"
  by (simp add: fetchProducts_def loadProduct_def maybeSingle_call_def example_defs query_defs
      Market_initial_def with_farm_def with_detail_farm_def select_detail_farm_def
      ProductDetail_initial_def Unknown_Farm_def products_row.defs Market_Product.defs
      Detail_Product.defs)

section \<open>The browse filter\<close>

lemma startsWith_prefix: "startsWith s t \<longleftrightarrow> prefix t s"
  by (induction s t rule: startsWith.induct) auto

lemma includes_str_sublist: "includes_str s t \<longleftrightarrow> sublist t s"
  by (induction s) (auto simp: startsWith_prefix sublist_Cons_right)

lemma includes_str_empty: "includes_str s []"
  by (simp add: includes_str_sublist)

text \<open>
  C9: whatever the built-ins compute, a product is in \<open>filteredProducts\<close> if and only
  if it is in the loaded list, the type filter is \<open>all\<close> or is the product's type, and
  the search text, put in lower case by \<open>toLowerCase\<close>, occurs as a contiguous part of
  the name of the product or of the name of its farm, each put in lower case by
  \<open>toLowerCase\<close>. With an empty search text (\<open>toLowerCase\<close> of the empty string being
  the empty string) the result is the loaded list filtered by type alone. The letter
  case of the search text does not matter: two search texts with the same lower-case
  form keep the same products.
\<close>

theorem filteredProducts_keeps:
  "(p \<in> set (filteredProducts js st) \<longleftrightarrow>
      p \<in> set (products st) \<and>
      (typeFilter st = ''all'' \<or> product_type_text (product_type p) = typeFilter st) \<and>
      (sublist (toLowerCase js (search st)) (toLowerCase js (name p)) \<or>
       sublist (toLowerCase js (search st)) (toLowerCase js (mf_farm_name (farm_profiles p))))) \<and>
   (search st = [] \<and> toLowerCase js [] = [] \<longrightarrow>
      filteredProducts js st =
        filter (\<lambda>p. typeFilter st = ''all'' \<or> product_type_text (product_type p) = typeFilter st)
               (products st)) \<and>
   (toLowerCase js s = toLowerCase js (search st) \<longrightarrow>
      filteredProducts js (st\<lparr>search := s\<rparr>) = filteredProducts js st)"
    (is "?iff \<and> ?empty \<and> ?case")
proof -
  have a: ?iff
    by (auto simp: filteredProducts_def matches_def Let_def includes_str_sublist)
  have b: ?empty
    by (auto simp: filteredProducts_def matches_def Let_def includes_str_empty
        intro!: filter_cong)
  have c: ?case
    by (auto simp: filteredProducts_def matches_def Let_def intro!: filter_cong)
  show ?thesis by (rule conjI [OF a conjI [OF b c]])
qed

text \<open>
  On plain text: with no search text and the filter \<open>shoot\<close> only the shoot is kept;
  the search \<open>MICH\<close> keeps \<open>Gros Michel\<close> and not \<open>Old Shoot\<close>, and keeps what the
  search \<open>mich\<close> keeps.
\<close>

theorem filteredProducts_keeps_witness:
  "search (example_Market [] ''shoot'') = [] \<and> toLowerCase plain_text [] = [] \<and>
   filteredProducts plain_text (example_Market [] ''shoot'') =
     [with_farm retired_shoot Unknown_Farm] \<and>
   with_farm gros_michel Unknown_Farm \<in>
     set (filteredProducts plain_text (example_Market ''MICH'' ''all'')) \<and>
   with_farm retired_shoot Unknown_Farm \<notin>
     set (filteredProducts plain_text (example_Market ''MICH'' ''all'')) \<and>
   toLowerCase plain_text ''mich'' = toLowerCase plain_text ''MICH'' \<and>
   filteredProducts plain_text (example_Market ''mich'' ''all'') =
     filteredProducts plain_text (example_Market ''MICH'' ''all'')"
proof -
  have s: "search (example_Market [] ''shoot'') = []" by (simp add: example_Market_def)
  have low: "toLowerCase plain_text [] = []"
    "toLowerCase plain_text ''MICH'' = ''mich''" "toLowerCase plain_text ''mich'' = ''mich''"
    "toLowerCase plain_text ''Gros Michel'' = ''gros michel''"
    "toLowerCase plain_text ''Old Shoot'' = ''old shoot''"
    "toLowerCase plain_text ''Unknown Farm'' = ''unknown farm''"
    by (simp_all add: plain_text_def plain_toLowerCase_def plain_toLowerChar_def
        upper_case_letters_def lower_case_letters_def)
  have a: "filteredProducts plain_text (example_Market [] ''shoot'') =
      [with_farm retired_shoot Unknown_Farm]"
    using filteredProducts_keeps
      [of "with_farm gros_michel Unknown_Farm" plain_text "example_Market [] ''shoot''",
        THEN conjunct2, THEN conjunct1]
      s low(1)
    by (simp add: example_Market_def with_farm_def products_row.defs Market_Product.defs
         gros_michel_def retired_shoot_def)
  have yes: "sublist ''mich'' ''gros michel''"
    using sublist_appendI [of "''mich''" "''gros ''" "''el''"] by simp
  have no: "\<not> sublist ''mich'' ''old shoot''" "\<not> sublist ''mich'' ''unknown farm''"
    by (simp_all add: sublist_Cons_right)
  have b: "with_farm gros_michel Unknown_Farm \<in>
      set (filteredProducts plain_text (example_Market ''MICH'' ''all''))"
    using filteredProducts_keeps
      [of "with_farm gros_michel Unknown_Farm" plain_text "example_Market ''MICH'' ''all''",
        THEN conjunct1]
      low yes
    by (simp add: example_Market_def with_farm_def products_row.defs Market_Product.defs
        gros_michel_def)
  have c: "with_farm retired_shoot Unknown_Farm \<notin>
      set (filteredProducts plain_text (example_Market ''MICH'' ''all''))"
    using filteredProducts_keeps
      [of "with_farm retired_shoot Unknown_Farm" plain_text "example_Market ''MICH'' ''all''",
        THEN conjunct1]
      low no
    by (simp add: example_Market_def with_farm_def products_row.defs Market_Product.defs
        gros_michel_def retired_shoot_def Unknown_Farm_def)
  have same: "toLowerCase plain_text ''mich'' = toLowerCase plain_text ''MICH''"
    by (simp add: low)
  have "toLowerCase plain_text ''mich'' =
      toLowerCase plain_text (search (example_Market ''MICH'' ''all''))"
    by (simp add: low example_Market_def)
  then have "filteredProducts plain_text ((example_Market ''MICH'' ''all'')\<lparr>search := ''mich''\<rparr>) =
      filteredProducts plain_text (example_Market ''MICH'' ''all'')"
    using filteredProducts_keeps
      [of "with_farm gros_michel Unknown_Farm" plain_text "example_Market ''MICH'' ''all''"
          "''mich''", THEN conjunct2, THEN conjunct2]
    by blast
  then have d: "filteredProducts plain_text (example_Market ''mich'' ''all'') =
      filteredProducts plain_text (example_Market ''MICH'' ''all'')"
    by (simp add: example_Market_def)
  from s low(1) a b c same d show ?thesis by blast
qed

section \<open>The product page\<close>

text \<open>A key that is unique in a table selects at most one row.\<close>

lemma filter_key_absent: "k \<notin> f ` set xs \<Longrightarrow> filter (\<lambda>r. f r = k) xs = []"
  by (induction xs) auto

lemma filter_key_distinct:
  "distinct (map f xs) \<Longrightarrow>
   filter (\<lambda>r. f r = k) xs = (case find (\<lambda>r. f r = k) xs of None \<Rightarrow> [] | Some x \<Rightarrow> [x])"
proof (induction xs)
  case Nil
  then show ?case by simp
next
  case (Cons a xs)
  show ?case
  proof (cases "f a = k")
    case True
    with Cons.prems have "k \<notin> f ` set xs" by auto
    then show ?thesis using True by (simp add: filter_key_absent)
  next
    case False
    with Cons show ?thesis by simp
  qed
qed

lemma find_key_member:
  "distinct (map f xs) \<Longrightarrow> x \<in> set xs \<Longrightarrow> find (\<lambda>r. f r = f x) xs = Some x"
proof (induction xs)
  case Nil
  then show ?case by simp
next
  case (Cons a xs)
  then show ?case by (cases "x = a") (auto simp: image_iff)
qed

text \<open>
  C3: in a store whose product ids and farm profile ids are unique, and whose calls
  answer, \<open>loadProduct\<close> on a freshly opened page loads the product with the given id
  when that product exists and is active, together with the farm profile that its
  \<open>farm_id\<close> names (\<open>null\<close> when there is none), and raises no toast. When no product
  with that id is active (there is none, or it is deactivated) it shows
  \<open>Product not found\<close>, goes back to the market, and leaves no product loaded.
\<close>

theorem loadProduct_found_or_NotFound:
  assumes "distinct (map id (products_table db))"
    and "distinct (map fp_id (farm_profiles_table db))"
  shows "(\<forall>p \<in> set (products_table db). id p = pid \<and> is_active p = Some True \<longrightarrow>
            loadProduct db None None pid ProductDetail_initial =
              (\<lparr>pd_loading = False,
                product = Some (with_detail_farm p
                   (map_option select_detail_farm
                      (find (\<lambda>f. fp_id f = farm_id p) (farm_profiles_table db))))\<rparr>, [])) \<and>
         ((\<forall>p \<in> set (products_table db). id p = pid \<longrightarrow> is_active p \<noteq> Some True) \<longrightarrow>
            loadProduct db None e2 pid ProductDetail_initial =
              (\<lparr>pd_loading = False, product = None\<rparr>,
               [toast_error ''Product not found'', navigate ''/market'']))"
proof (intro conjI ballI impI)
  fix p
  assume p: "p \<in> set (products_table db)" and "id p = pid \<and> is_active p = Some True"
  then have pid: "id p = pid" and act: "is_active p = Some True" by simp_all
  have "eq id pid (products_table db) = [p]"
    using assms(1) p pid find_key_member [of id "products_table db" p]
    by (simp add: eq_def filter_key_distinct)
  then have one: "eq is_active (Some True) (eq id pid (products_table db)) = [p]"
    using act by (simp add: eq_def)
  have farm: "map select_detail_farm (eq fp_id (farm_id p) (farm_profiles_table db)) =
      (case find (\<lambda>f. fp_id f = farm_id p) (farm_profiles_table db) of
         None \<Rightarrow> [] | Some f \<Rightarrow> [select_detail_farm f])"
    using assms(2) by (simp add: eq_def filter_key_distinct split: option.splits)
  show "loadProduct db None None pid ProductDetail_initial =
      (\<lparr>pd_loading = False,
        product = Some (with_detail_farm p
           (map_option select_detail_farm
              (find (\<lambda>f. fp_id f = farm_id p) (farm_profiles_table db))))\<rparr>, [])"
    by (simp add: loadProduct_def maybeSingle_call_def one farm ProductDetail_initial_def
        split: option.splits)
next
  assume none: "\<forall>p \<in> set (products_table db). id p = pid \<longrightarrow> is_active p \<noteq> Some True"
  then have "eq is_active (Some True) (eq id pid (products_table db)) = []"
    by (auto simp: eq_def filter_empty_conv)
  then show "loadProduct db None e2 pid ProductDetail_initial =
      (\<lparr>pd_loading = False, product = None\<rparr>,
       [toast_error ''Product not found'', navigate ''/market''])"
    by (simp add: loadProduct_def maybeSingle_call_def ProductDetail_initial_def)
qed

text \<open>
  On the example store \<open>prod-1\<close> is loaded with \<open>Sunny Farm\<close>; the deactivated
  \<open>prod-2\<close> and the absent \<open>prod-9\<close> are not found.
\<close>

theorem loadProduct_found_or_NotFound_witness:
  "distinct (map id (products_table example_store)) \<and>
   distinct (map fp_id (farm_profiles_table example_store)) \<and>
   gros_michel \<in> set (products_table example_store) \<and>
   id gros_michel = ''prod-1'' \<and> is_active gros_michel = Some True \<and>
   loadProduct example_store None None ''prod-1'' ProductDetail_initial =
     (\<lparr>pd_loading = False,
       product = Some (with_detail_farm gros_michel (Some (select_detail_farm sunny_farm)))\<rparr>, []) \<and>
   list_all (\<lambda>p. id p = ''prod-2'' \<longrightarrow> is_active p \<noteq> Some True)
     (products_table example_store) \<and>
   retired_shoot \<in> set (products_table example_store) \<and> id retired_shoot = ''prod-2'' \<and>
   loadProduct example_store None None ''prod-2'' ProductDetail_initial =
     (\<lparr>pd_loading = False, product = None\<rparr>,
      [toast_error ''Product not found'', navigate ''/market'']) \<and>
   list_all (\<lambda>p. id p \<noteq> ''prod-9'') (products_table example_store) \<and>
   loadProduct example_store None None ''prod-9'' ProductDetail_initial =
     (\<lparr>pd_loading = False, product = None\<rparr>,
      [toast_error ''Product not found'', navigate ''/market''])"
proof -
  have d: "distinct (map id (products_table example_store))"
    "distinct (map fp_id (farm_profiles_table example_store))"
    by (simp_all add: example_defs)
  have g: "gros_michel \<in> set (products_table example_store)"
    "id gros_michel = ''prod-1'' \<and> is_active gros_michel = Some True"
    "find (\<lambda>f. fp_id f = farm_id gros_michel) (farm_profiles_table example_store) = Some sunny_farm"
    by (simp_all add: example_defs)
  have r: "\<forall>p \<in> set (products_table example_store). id p = ''prod-2'' \<longrightarrow> is_active p \<noteq> Some True"
    "retired_shoot \<in> set (products_table example_store)" "id retired_shoot = ''prod-2''"
    by (simp_all add: example_defs)
  have n: "\<forall>p \<in> set (products_table example_store). id p \<noteq> ''prod-9''"
    by (simp add: example_defs)
  have found: "loadProduct example_store None None ''prod-1'' ProductDetail_initial =
     (\<lparr>pd_loading = False,
       product = Some (with_detail_farm gros_michel (Some (select_detail_farm sunny_farm)))\<rparr>, [])"
    using loadProduct_found_or_NotFound [OF d, of "''prod-1''" None] g by fastforce
  have inactive: "loadProduct example_store None None ''prod-2'' ProductDetail_initial =
     (\<lparr>pd_loading = False, product = None\<rparr>,
      [toast_error ''Product not found'', navigate ''/market''])"
    using loadProduct_found_or_NotFound [OF d, of "''prod-2''" None] r(1) by blast
  have absent: "loadProduct example_store None None ''prod-9'' ProductDetail_initial =
     (\<lparr>pd_loading = False, product = None\<rparr>,
      [toast_error ''Product not found'', navigate ''/market''])"
    using loadProduct_found_or_NotFound [OF d, of "''prod-9''" None] n by blast
  show ?thesis
    unfolding list_all_iff
    using d g(1,2) r n found inactive absent by blast
qed

section \<open>Creating a product\<close>

text \<open>A form that fails one of the five checks is answered with one toast and nothing else.\<close>

lemma handleSubmit_rejected:
  assumes "truthy (farmId st) = None \<or>
     trim js (fd_name (formData st)) = [] \<or>
     isNaN (parseFloat js (fd_price_per_unit (formData st))) \<or>
     le_zero (parseFloat js (fd_price_per_unit (formData st))) \<or>
     isNaN (parseInt js (fd_available_quantity (formData st))) \<or>
     le_zero (parseInt js (fd_available_quantity (formData st))) \<or>
     fd_harvest_date (formData st) = []"
  shows "\<exists>msg \<in> {''No farm profile found'', ''Product name is required'',
            ''Price must be greater than 0'', ''Quantity must be greater than 0'',
            ''Harvest date is required''}.
           handleSubmit js e d st db = (st, db, [toast_error msg])"
  using assms by (cases "truthy (farmId st)") (auto simp: handleSubmit_def Let_def)

text \<open>A form that passes all five checks is sent to the store.\<close>

lemma handleSubmit_accepted:
  assumes "truthy (farmId st) = Some fid"
    and "trim js (fd_name (formData st)) \<noteq> []"
    and "\<not> isNaN (parseFloat js (fd_price_per_unit (formData st)))"
    and "\<not> le_zero (parseFloat js (fd_price_per_unit (formData st)))"
    and "\<not> isNaN (parseInt js (fd_available_quantity (formData st)))"
    and "\<not> le_zero (parseInt js (fd_available_quantity (formData st)))"
    and "fd_harvest_date (formData st) \<noteq> []"
  shows "handleSubmit js e d st db =
     (let row = \<lparr>i_farm_id = fid, i_name = trim js (fd_name (formData st)),
                 i_description = or_null (trim js (fd_description (formData st))),
                 i_product_type = fd_product_type (formData st),
                 i_price_per_unit = parseFloat js (fd_price_per_unit (formData st)),
                 i_available_quantity = parseInt js (fd_available_quantity (formData st)),
                 i_unit = fd_unit (formData st), i_harvest_date = fd_harvest_date (formData st),
                 i_expiry_date = or_null (fd_expiry_date (formData st)),
                 i_image_url = or_null (trim js (fd_image_url (formData st))),
                 i_is_active = True\<rparr>
      in case e of
           Some err \<Rightarrow> (st\<lparr>submitting := False\<rparr>, db,
                       [store_write (insert_products row),
                        toast_error (error_message err ''Failed to add product'')])
         | None \<Rightarrow> (st\<lparr>submitting := False\<rparr>,
                    db\<lparr>products_table := products_table db @ [inserted_row d row]\<rparr>,
                    [store_write (insert_products row),
                     toast_success ''Product added successfully'',
                     navigate ''/farm/products'']))"
  using assms by (cases e) (simp_all add: handleSubmit_def Let_def)


lemmas parse_defs =
  plain_text_def plain_parseInt_def plain_parseFloat_def plain_trimStart_def plain_trim_def
  isWhiteSpace_def digit_of_def digits_value_def exponent_part_def to_double_def
  round_ratio_def pow2_def bit_length.simps Let_def

lemmas form_defs =
  example_AddProduct_def example_form_def fractional_quantity_def expiry_before_harvest_def
  example_defaults_def

text \<open>The values of the built-ins on the strings of the example forms.\<close>

lemma example_parses:
  "parseFloat plain_text ''45.50'' = Num (91 / 2)"
  "parseInt plain_text ''12'' = Num 12"
  "parseInt plain_text ''3.7'' = Num 3"
  "trim plain_text ''Lady Finger'' = ''Lady Finger''"
  "trim plain_text [] = []"
  "trim plain_text [CHR 0xA0, CHR 0x20] = []"
  by (simp_all add: parse_defs)

text \<open>
  C4, as the claim states it, fails of \<open>handleSubmit\<close>: a quantity that is not an integer
  is not always refused. \<open>parseInt\<close> reads the leading digits and ignores the rest, so
  for a form whose quantity text is \<open>3.7\<close> the check passes with \<open>3\<close>, and the product
  is inserted with \<open>available_quantity = 3\<close>.
\<close>

theorem handleSubmit_fractional_quantity_counterexample:
  "fd_available_quantity (formData fractional_quantity) = ''3.7'' \<and>
   map (\<lambda>r. (id r, available_quantity r))
       (products_table (fst (snd (handleSubmit plain_text None example_defaults fractional_quantity example_store)))) =
     [(''prod-1'', Num 5), (''prod-2'', Num 5), (''prod-3'', Num 5), (''prod-4'', Num 3)] \<and>
   snd (snd (handleSubmit plain_text None example_defaults fractional_quantity example_store)) =
     [store_write (insert_products
        \<lparr>i_farm_id = ''farm-1'', i_name = ''Lady Finger'', i_description = None,
         i_product_type = fruit, i_price_per_unit = Num (91 / 2), i_available_quantity = Num 3,
         i_unit = ''kg'', i_harvest_date = ''2024-05-10'', i_expiry_date = None,
         i_image_url = None, i_is_active = True\<rparr>),
      toast_success ''Product added successfully'', navigate ''/farm/products'']"
  by (simp add: handleSubmit_def Let_def form_defs example_parses or_null_def inserted_row_def
      example_store_def gros_michel_def retired_shoot_def early_bunch_def)

text \<open>
  C4, amended: whatever the built-ins compute, \<open>handleSubmit\<close> answers with exactly one
  validation toast, and changes neither its state nor the store, whenever no farm id
  is loaded, \<open>trim\<close> of the name is empty, \<open>parseFloat\<close> of the price text is \<open>NaN\<close> or
  not above zero, \<open>parseInt\<close> of the quantity text is \<open>NaN\<close> or not above zero, or the
  harvest date is empty. A write is sent to the store exactly when none of these
  holds.
\<close>

theorem handleSubmit_validation:
  "(truthy (farmId st) = None \<or>
    trim js (fd_name (formData st)) = [] \<or>
    isNaN (parseFloat js (fd_price_per_unit (formData st))) \<or>
    le_zero (parseFloat js (fd_price_per_unit (formData st))) \<or>
    isNaN (parseInt js (fd_available_quantity (formData st))) \<or>
    le_zero (parseInt js (fd_available_quantity (formData st))) \<or>
    fd_harvest_date (formData st) = [] \<longrightarrow>
      (\<exists>msg \<in> {''No farm profile found'', ''Product name is required'',
                   ''Price must be greater than 0'', ''Quantity must be greater than 0'',
                   ''Harvest date is required''}.
         handleSubmit js e d st db = (st, db, [toast_error msg]))) \<and>
   ((\<exists>w. store_write w \<in> set (snd (snd (handleSubmit js e d st db)))) \<longleftrightarrow>
      \<not> (truthy (farmId st) = None \<or>
         trim js (fd_name (formData st)) = [] \<or>
         isNaN (parseFloat js (fd_price_per_unit (formData st))) \<or>
         le_zero (parseFloat js (fd_price_per_unit (formData st))) \<or>
         isNaN (parseInt js (fd_available_quantity (formData st))) \<or>
         le_zero (parseInt js (fd_available_quantity (formData st))) \<or>
         fd_harvest_date (formData st) = []))"
proof -
  let ?R = "truthy (farmId st) = None \<or>
    trim js (fd_name (formData st)) = [] \<or>
    isNaN (parseFloat js (fd_price_per_unit (formData st))) \<or>
    le_zero (parseFloat js (fd_price_per_unit (formData st))) \<or>
    isNaN (parseInt js (fd_available_quantity (formData st))) \<or>
    le_zero (parseInt js (fd_available_quantity (formData st))) \<or>
    fd_harvest_date (formData st) = []"
  have rejected: "?R \<longrightarrow>
      (\<exists>msg \<in> {''No farm profile found'', ''Product name is required'',
                   ''Price must be greater than 0'', ''Quantity must be greater than 0'',
                   ''Harvest date is required''}.
         handleSubmit js e d st db = (st, db, [toast_error msg]))"
    using handleSubmit_rejected [where js = js and st = st and e = e and d = d and db = db]
    by blast
  have no_write: "?R \<Longrightarrow> \<not> (\<exists>w. store_write w \<in> set (snd (snd (handleSubmit js e d st db))))"
  proof -
    assume "?R"
    then obtain msg where "handleSubmit js e d st db = (st, db, [toast_error msg])"
      using handleSubmit_rejected [where js = js and st = st and e = e and d = d and db = db]
      by blast
    then show ?thesis by simp
  qed
  have sent: "\<not> ?R \<Longrightarrow> \<exists>w. store_write w \<in> set (snd (snd (handleSubmit js e d st db)))"
  proof -
    assume n: "\<not> ?R"
    then obtain fid where fid: "truthy (farmId st) = Some fid" by auto
    show ?thesis
      using handleSubmit_accepted [OF fid, where js = js and e = e and d = d and db = db] n
      by (cases e) (auto simp: Let_def)
  qed
  from rejected no_write sent show ?thesis by blast
qed


text \<open>
  A name that is a no-break space and a space is refused with
  \<open>Product name is required\<close> and nothing is written; the example form is sent.
\<close>

theorem handleSubmit_validation_witness:
  "trim plain_text (fd_name (formData (example_AddProduct\<lparr>formData := example_form\<lparr>fd_name := [CHR 0xA0, CHR 0x20]\<rparr>\<rparr>))) = [] \<and>
   handleSubmit plain_text None example_defaults
       (example_AddProduct\<lparr>formData := example_form\<lparr>fd_name := [CHR 0xA0, CHR 0x20]\<rparr>\<rparr>) example_store =
     (example_AddProduct\<lparr>formData := example_form\<lparr>fd_name := [CHR 0xA0, CHR 0x20]\<rparr>\<rparr>, example_store,
      [toast_error ''Product name is required'']) \<and>
   (\<exists>w. store_write w \<in> set (snd (snd (handleSubmit plain_text None example_defaults example_AddProduct example_store))))"
proof -
  let ?blank = "example_AddProduct\<lparr>formData := example_form\<lparr>fd_name := [CHR 0xA0, CHR 0x20]\<rparr>\<rparr>"
  have b: "trim plain_text (fd_name (formData ?blank)) = []"
    by (simp add: form_defs example_parses)
  have msg: "handleSubmit plain_text None example_defaults ?blank example_store \<noteq> (?blank, example_store, [toast_error m])"
    if "m \<noteq> ''Product name is required''" for m
    using that by (simp add: handleSubmit_def Let_def form_defs example_parses)
  have r: "handleSubmit plain_text None example_defaults ?blank example_store =
     (?blank, example_store, [toast_error ''Product name is required''])"
    using handleSubmit_validation
      [where js = plain_text and st = ?blank and e = None and d = example_defaults and
        db = example_store] b msg
    by (metis (no_types, lifting))
  have ok: "\<not> (truthy (farmId example_AddProduct) = None \<or>
         trim plain_text (fd_name (formData example_AddProduct)) = [] \<or>
         isNaN (parseFloat plain_text (fd_price_per_unit (formData example_AddProduct))) \<or>
         le_zero (parseFloat plain_text (fd_price_per_unit (formData example_AddProduct))) \<or>
         isNaN (parseInt plain_text (fd_available_quantity (formData example_AddProduct))) \<or>
         le_zero (parseInt plain_text (fd_available_quantity (formData example_AddProduct))) \<or>
         fd_harvest_date (formData example_AddProduct) = [])"
    by (simp add: form_defs example_parses)
  have w: "\<exists>w. store_write w \<in> set (snd (snd (handleSubmit plain_text None example_defaults example_AddProduct example_store)))"
    using handleSubmit_validation
      [where js = plain_text and st = example_AddProduct and e = None and
        d = example_defaults and db = example_store] ok
    by blast
  from b r w show ?thesis by blast
qed

text \<open>
  C5, as the claim states it, fails: with an expiry date nine days before the harvest
  date the example form is not refused. The insert is sent, and the store, accepting
  it, holds the new product with that expiry date.
\<close>

theorem handleSubmit_expiry_before_harvest_counterexample:
  "fd_expiry_date (formData expiry_before_harvest) = ''2024-05-01'' \<and>
   fd_harvest_date (formData expiry_before_harvest) = ''2024-05-10'' \<and>
   (''2024-05-01'' :: string) < ''2024-05-10'' \<and>
   map (\<lambda>r. (id r, harvest_date r, expiry_date r))
       (products_table (fst (snd (handleSubmit plain_text None example_defaults expiry_before_harvest example_store)))) =
     [(''prod-1'', ''2024-05-10'', None), (''prod-2'', ''2024-04-01'', None),
      (''prod-3'', ''2024-03-01'', None), (''prod-4'', ''2024-05-10'', Some ''2024-05-01'')] \<and>
   snd (snd (handleSubmit plain_text None example_defaults expiry_before_harvest example_store)) =
     [store_write (insert_products
        \<lparr>i_farm_id = ''farm-1'', i_name = ''Lady Finger'', i_description = None,
         i_product_type = fruit, i_price_per_unit = Num (91 / 2), i_available_quantity = Num 12,
         i_unit = ''kg'', i_harvest_date = ''2024-05-10'', i_expiry_date = Some ''2024-05-01'',
         i_image_url = None, i_is_active = True\<rparr>),
      toast_success ''Product added successfully'', navigate ''/farm/products'']"
  by (simp add: handleSubmit_def Let_def form_defs example_parses or_null_def inserted_row_def
      example_store_def gros_michel_def retired_shoot_def early_bunch_def)

text \<open>
  C5, amended: \<open>handleSubmit\<close> makes no check of the expiry date. Whatever the
  built-ins compute, for every form whose expiry date is present and which passes the
  other checks (farm id loaded, name not blank, price and quantity parsed above zero,
  harvest date present), the insert is sent with the expiry date as given, whether or
  not it is earlier than the harvest date and whatever the store answers; when the
  store accepts it the product is created with that expiry date.
\<close>

theorem handleSubmit_expiry_unchecked:
  assumes "truthy (farmId st) = Some fid"
    and "trim js (fd_name (formData st)) \<noteq> []"
    and "\<not> isNaN (parseFloat js (fd_price_per_unit (formData st)))"
    and "\<not> le_zero (parseFloat js (fd_price_per_unit (formData st)))"
    and "\<not> isNaN (parseInt js (fd_available_quantity (formData st)))"
    and "\<not> le_zero (parseInt js (fd_available_quantity (formData st)))"
    and "fd_harvest_date (formData st) \<noteq> []"
    and "fd_expiry_date (formData st) \<noteq> []"
  shows "\<exists>row. i_expiry_date row = Some (fd_expiry_date (formData st)) \<and>
           i_harvest_date row = fd_harvest_date (formData st) \<and>
           store_write (insert_products row) \<in> set (snd (snd (handleSubmit js e d st db))) \<and>
           handleSubmit js None d st db =
             (st\<lparr>submitting := False\<rparr>,
              db\<lparr>products_table := products_table db @ [inserted_row d row]\<rparr>,
              [store_write (insert_products row), toast_success ''Product added successfully'',
               navigate ''/farm/products''])"
proof -
  let ?row = "\<lparr>i_farm_id = fid, i_name = trim js (fd_name (formData st)),
                 i_description = or_null (trim js (fd_description (formData st))),
                 i_product_type = fd_product_type (formData st),
                 i_price_per_unit = parseFloat js (fd_price_per_unit (formData st)),
                 i_available_quantity = parseInt js (fd_available_quantity (formData st)),
                 i_unit = fd_unit (formData st), i_harvest_date = fd_harvest_date (formData st),
                 i_expiry_date = or_null (fd_expiry_date (formData st)),
                 i_image_url = or_null (trim js (fd_image_url (formData st))),
                 i_is_active = True\<rparr>"
  have a: "i_expiry_date ?row = Some (fd_expiry_date (formData st))"
    using assms(8) by (simp add: or_null_def)
  have b: "i_harvest_date ?row = fd_harvest_date (formData st)" by simp
  have c: "store_write (insert_products ?row) \<in> set (snd (snd (handleSubmit js e d st db)))"
    using handleSubmit_accepted [OF assms(1-7), where e = e and d = d and db = db]
    by (cases e) (simp_all add: Let_def)
  have d: "handleSubmit js None d st db =
             (st\<lparr>submitting := False\<rparr>,
              db\<lparr>products_table := products_table db @ [inserted_row d ?row]\<rparr>,
              [store_write (insert_products ?row), toast_success ''Product added successfully'',
               navigate ''/farm/products''])"
    using handleSubmit_accepted [OF assms(1-7), where e = None and d = d and db = db]
    by (simp add: Let_def)
  from a b c d show ?thesis by blast
qed

text \<open>
  The example form, whose expiry date \<open>2024-05-01\<close> is before its harvest date
  \<open>2024-05-10\<close>, meets every hypothesis.
\<close>

theorem handleSubmit_expiry_unchecked_witness:
  "fd_expiry_date (formData expiry_before_harvest) = ''2024-05-01'' \<and>
   fd_harvest_date (formData expiry_before_harvest) = ''2024-05-10'' \<and>
   (\<exists>row. i_expiry_date row = Some ''2024-05-01'' \<and> i_harvest_date row = ''2024-05-10'' \<and>
      handleSubmit plain_text None example_defaults expiry_before_harvest example_store =
        (expiry_before_harvest\<lparr>submitting := False\<rparr>,
         example_store\<lparr>products_table :=
            products_table example_store @ [inserted_row example_defaults row]\<rparr>,
         [store_write (insert_products row), toast_success ''Product added successfully'',
          navigate ''/farm/products'']))"
proof -
  have h: "truthy (farmId expiry_before_harvest) = Some ''farm-1''"
    "trim plain_text (fd_name (formData expiry_before_harvest)) \<noteq> []"
    "\<not> isNaN (parseFloat plain_text (fd_price_per_unit (formData expiry_before_harvest)))"
    "\<not> le_zero (parseFloat plain_text (fd_price_per_unit (formData expiry_before_harvest)))"
    "\<not> isNaN (parseInt plain_text (fd_available_quantity (formData expiry_before_harvest)))"
    "\<not> le_zero (parseInt plain_text (fd_available_quantity (formData expiry_before_harvest)))"
    "fd_harvest_date (formData expiry_before_harvest) \<noteq> []"
    "fd_expiry_date (formData expiry_before_harvest) \<noteq> []"
    by (simp_all add: form_defs example_parses)
  have v: "fd_expiry_date (formData expiry_before_harvest) = ''2024-05-01''"
    "fd_harvest_date (formData expiry_before_harvest) = ''2024-05-10''"
    by (simp_all add: form_defs)
  show ?thesis
    using handleSubmit_expiry_unchecked
      [OF h, where e = None and d = example_defaults and db = example_store] v
    by auto
qed

section \<open>Deleting a product\<close>

text \<open>What each writing operation of the program does to the products table.\<close>

lemma deleteProduct_store:
  "fst (snd (deleteProduct agreed e d productId st db)) =
     (if agreed \<and> e = None
      then db\<lparr>products_table :=
             map (\<lambda>r. if id r = productId then r\<lparr>is_active := Some False\<rparr> else r)
                 (products_table db)\<rparr>
      else db)"
  by (cases e) (simp_all add: deleteProduct_def Let_def)

lemma toggleActive_store:
  "fst (snd (toggleActive e d productId cur st db)) = db \<or>
   fst (snd (toggleActive e d productId cur st db)) =
     db\<lparr>products_table :=
          map (\<lambda>r. if id r = productId then r\<lparr>is_active := Some (js_not cur)\<rparr> else r) (products_table db)\<rparr>"
  by (cases e) (simp_all add: toggleActive_def Let_def)

lemma handleSubmit_store:
  "fst (snd (handleSubmit js e d st db)) = db \<or>
   (\<exists>row. fst (snd (handleSubmit js e d st db)) =
      db\<lparr>products_table := products_table db @ [row]\<rparr>)"
  by (cases e; cases "truthy (farmId st)") (auto simp: handleSubmit_def Let_def)

lemma saveProfile_store:
  "products_table (fst (snd (saveProfile js e d st db))) = products_table db"
  by (cases e; cases "profile st") (simp_all add: saveProfile_def Let_def)

lemma saveFarmProfile_store:
  "products_table (fst (snd (saveFarmProfile js e d st db))) = products_table db"
  by (cases e; cases "farmProfile st") (simp_all add: saveFarmProfile_def Let_def)

lemma map_id_update:
  "map (id \<circ> (\<lambda>r. if id r = k then r\<lparr>is_active := b\<rparr> else r)) rows = map id rows"
  by (induction rows) auto

lemma program_step_keeps_ids:
  "program_step db db' \<Longrightarrow> prefix (map id (products_table db)) (map id (products_table db'))"
proof (induction rule: program_step.induct)
  case (step_handleSubmit js e d ast db ast' db' fx)
  then have "db' = fst (snd (handleSubmit js e d ast db))" by simp
  then show ?case using handleSubmit_store [of js e d ast db] by auto
next
  case (step_toggleActive e d productId currentState mst db mst' db' fx)
  then have "db' = fst (snd (toggleActive e d productId currentState mst db))" by simp
  then show ?case using toggleActive_store [of e d productId currentState mst db]
    by (auto simp: map_id_update)
next
  case (step_deleteProduct agreed e d productId mst db mst' db' fx)
  then have "db' = fst (snd (deleteProduct agreed e d productId mst db))" by simp
  then show ?case
    by (cases "agreed \<and> e = None") (simp_all add: deleteProduct_store map_id_update)
next
  case (step_saveProfile js e d ust db ust' db' fx)
  then have "db' = fst (snd (saveProfile js e d ust db))" by simp
  then show ?case by (simp add: saveProfile_store)
next
  case (step_saveFarmProfile js e d ust db ust' db' fx)
  then have "db' = fst (snd (saveFarmProfile js e d ust db))" by simp
  then show ?case by (simp add: saveFarmProfile_store)
qed

lemma program_steps_keep_ids:
  "program_step\<^sup>*\<^sup>* db db' \<Longrightarrow> prefix (map id (products_table db)) (map id (products_table db'))"
proof (induction rule: rtranclp_induct)
  case base
  then show ?case by simp
next
  case (step y z)
  then show ?case using program_step_keeps_ids [of y z] by (meson prefix_order.trans)
qed

lemma soft_delete_nth:
  "i < length rows \<Longrightarrow>
      map (\<lambda>r. if id r = k then r\<lparr>is_active := Some False\<rparr> else r) rows ! i = rows ! i \<or>
      id (rows ! i) = k \<and>
      map (\<lambda>r. if id r = k then r\<lparr>is_active := Some False\<rparr> else r) rows ! i =
        (rows ! i)\<lparr>is_active := Some False\<rparr>"
  by simp

lemma soft_delete_one:
  "id (if id x = k then x\<lparr>is_active := Some False\<rparr> else x) = k \<longrightarrow>
   is_active (if id x = k then x\<lparr>is_active := Some False\<rparr> else x) = Some False"
  by (cases "id x = k") simp_all

lemma soft_delete_off:
  "\<forall>r \<in> set (map (\<lambda>r. if id r = k then r\<lparr>is_active := Some False\<rparr> else r) rows).
      id r = k \<longrightarrow> is_active r = Some False"
  unfolding set_map ball_simps using soft_delete_one by blast

text \<open>
  C6: \<open>deleteProduct\<close> removes no row of the store. The products table keeps its
  length; each of its rows is either unchanged or is the row with the given id with
  \<open>is_active\<close> set to \<open>false\<close> and every other field as before (which is what happens to
  the rows with that id when the dialog is confirmed and the store answers); the other
  tables are untouched. And no operation of the program deletes a product: along any
  sequence of writes of the program the ids of the products table stay, in order, at
  the front of the table.
\<close>

theorem deleteProduct_soft_delete:
  "(deleteProduct agreed e d productId st db = (st', db', fx) \<longrightarrow>
      (length (products_table db') = length (products_table db) \<and>
       (\<forall>i < length (products_table db).
          products_table db' ! i = products_table db ! i \<or>
          id (products_table db ! i) = productId \<and>
          products_table db' ! i = (products_table db ! i)\<lparr>is_active := Some False\<rparr>)) \<and>
      (agreed \<and> e = None \<longrightarrow>
         (\<forall>r \<in> set (products_table db'). id r = productId \<longrightarrow> is_active r = Some False)) \<and>
      (farm_profiles_table db' = farm_profiles_table db \<and>
       profiles_table db' = profiles_table db \<and>
       orders_table db' = orders_table db)) \<and>
   (program_step\<^sup>*\<^sup>* db1 db2 \<longrightarrow>
      prefix (map id (products_table db1)) (map id (products_table db2)))"
    (is "(?run \<longrightarrow> ?rows \<and> ?done \<and> ?others) \<and> ?steps")
proof (rule conjI)
  show "?run \<longrightarrow> ?rows \<and> ?done \<and> ?others"
  proof (rule impI)
    assume run: ?run
    then have db': "db' = fst (snd (deleteProduct agreed e d productId st db))" by simp
    let ?written = "db\<lparr>products_table :=
            map (\<lambda>r. if id r = productId then r\<lparr>is_active := Some False\<rparr> else r)
                (products_table db)\<rparr>"
    show "?rows \<and> ?done \<and> ?others"
    proof (cases "agreed \<and> e = None")
      case True
      then have w: "db' = ?written"
        using deleteProduct_store [of agreed e d productId st db] db' by simp
      have tbl: "products_table db' =
          map (\<lambda>r. if id r = productId then r\<lparr>is_active := Some False\<rparr> else r)
              (products_table db)"
        by (simp add: w)
      have rows: ?rows
        unfolding tbl using soft_delete_nth [where k = productId and rows = "products_table db"]
        by (simp only: length_map) blast
      have fin: ?done
        unfolding tbl using soft_delete_off [where k = productId and rows = "products_table db"]
        by blast
      have others: ?others
        by (simp add: w)
      show ?thesis by (rule conjI [OF rows conjI [OF fin others]])
    next
      case False
      have "fst (snd (deleteProduct agreed e d productId st db)) = db"
        unfolding deleteProduct_store by (simp only: False if_False)
      then have same: "db' = db"
        using db' by simp
      have rows: ?rows unfolding same by simp
      have fin: ?done using False by blast
      have others: ?others unfolding same by simp
      show ?thesis by (rule conjI [OF rows conjI [OF fin others]])
    qed
  qed
next
  show ?steps
    using program_steps_keep_ids by blast
qed

text \<open>
  Deleting \<open>prod-1\<close> from the example store leaves three rows, \<open>prod-1\<close> among them
  and deactivated.
\<close>

theorem deleteProduct_soft_delete_witness:
  "deleteProduct True None example_defaults ''prod-1'' example_ManageProducts example_store =
     (example_ManageProducts\<lparr>mp_products := []\<rparr>,
      example_store\<lparr>products_table :=
         [gros_michel\<lparr>is_active := Some False\<rparr>, retired_shoot, early_bunch]\<rparr>,
      [store_write (update_products_is_active False ''prod-1''), toast_success ''Product deleted'']) \<and>
   program_step\<^sup>*\<^sup>* example_store
     (example_store\<lparr>products_table :=
         [gros_michel\<lparr>is_active := Some False\<rparr>, retired_shoot, early_bunch]\<rparr>) \<and>
   length (products_table (example_store\<lparr>products_table :=
         [gros_michel\<lparr>is_active := Some False\<rparr>, retired_shoot, early_bunch]\<rparr>)) =
     length (products_table example_store) \<and>
   list_all (\<lambda>r. id r = ''prod-1'' \<longrightarrow> is_active r = Some False)
     (products_table (example_store\<lparr>products_table :=
         [gros_michel\<lparr>is_active := Some False\<rparr>, retired_shoot, early_bunch]\<rparr>)) \<and>
   prefix (map id (products_table example_store))
     (map id (products_table (example_store\<lparr>products_table :=
         [gros_michel\<lparr>is_active := Some False\<rparr>, retired_shoot, early_bunch]\<rparr>)))"
    (is "?run \<and> ?steps \<and> ?len \<and> ?off \<and> ?ids")
proof -
  let ?db' = "example_store\<lparr>products_table :=
         [gros_michel\<lparr>is_active := Some False\<rparr>, retired_shoot, early_bunch]\<rparr>"
  have run: ?run
    by (simp add: deleteProduct_def Let_def example_ManageProducts_def example_defs)
  have steps: ?steps
    using step_deleteProduct [OF run] by (rule r_into_rtranclp)
  note all = deleteProduct_soft_delete [of True None example_defaults "''prod-1''"
      example_ManageProducts example_store "example_ManageProducts\<lparr>mp_products := []\<rparr>" ?db'
      "[store_write (update_products_is_active False ''prod-1''), toast_success ''Product deleted'']"
      example_store ?db']
  note deleted = all [THEN conjunct1, THEN mp, OF run]
  have len: ?len using deleted [THEN conjunct1, THEN conjunct1] .
  have off: ?off
    unfolding list_all_iff using deleted [THEN conjunct2, THEN conjunct1] by blast
  have ids: ?ids using all [THEN conjunct2, THEN mp, OF steps] .
  show ?thesis
    by (rule conjI [OF run conjI [OF steps conjI [OF len conjI [OF off ids]]]])
qed

section \<open>Saving the farm profile\<close>

lemma saveFarmProfile_cases:
  "saveFarmProfile js e d st db = (st, db, []) \<and> farmProfile st = None \<or>
   saveFarmProfile js e d st db = (st, db, [toast_error ''Farm name is required'']) \<and>
     farmProfile st \<noteq> None \<and> trim js (ff_farm_name (farmForm st)) = [] \<or>
   saveFarmProfile js e d st db = (st, db, [toast_error ''Farm location is required'']) \<and>
     farmProfile st \<noteq> None \<and> trim js (ff_farm_name (farmForm st)) \<noteq> [] \<and>
     trim js (ff_farm_location (farmForm st)) = [] \<or>
   (\<exists>fp w err. farmProfile st = Some fp \<and> e = Some err \<and>
      trim js (ff_farm_name (farmForm st)) \<noteq> [] \<and> trim js (ff_farm_location (farmForm st)) \<noteq> [] \<and>
      saveFarmProfile js e d st db =
        (st\<lparr>saving := False\<rparr>, db,
         [store_write w, toast_error (error_message err ''Failed to update farm profile'')])) \<or>
   (\<exists>fp. farmProfile st = Some fp \<and> e = None \<and>
      trim js (ff_farm_name (farmForm st)) \<noteq> [] \<and> trim js (ff_farm_location (farmForm st)) \<noteq> [] \<and>
      saveFarmProfile js e d st db =
        (st\<lparr>saving := False\<rparr>,
         db\<lparr>farm_profiles_table :=
              map (\<lambda>r. if fp_id r = fp_id fp
                       then r\<lparr>farm_name := trim js (ff_farm_name (farmForm st)),
                              farm_location := trim js (ff_farm_location (farmForm st)),
                              farm_description := or_null (trim js (ff_farm_description (farmForm st)))\<rparr>
                       else r) (farm_profiles_table db)\<rparr>,
         [store_write (update_farm_profiles
             \<lparr>u_farm_name = trim js (ff_farm_name (farmForm st)),
              u_farm_location = trim js (ff_farm_location (farmForm st)),
              u_farm_description = or_null (trim js (ff_farm_description (farmForm st)))\<rparr> (fp_id fp)),
          toast_success ''Farm profile updated'']))"
  by (cases e; cases "farmProfile st") (auto simp: saveFarmProfile_def Let_def)

lemma saveFarmProfile_rows:
  "farm_profiles_table (fst (snd (saveFarmProfile js e d st db))) = farm_profiles_table db \<or>
   (\<exists>k n l ds. farm_profiles_table (fst (snd (saveFarmProfile js e d st db))) =
       map (\<lambda>r. if fp_id r = k
                then r\<lparr>farm_name := n, farm_location := l, farm_description := ds\<rparr> else r)
           (farm_profiles_table db))"
  using saveFarmProfile_cases [of js e d st db] by (elim disjE exE conjE) (simp_all, blast)

lemma saveFarmProfile_other_tables:
  "products_table (fst (snd (saveFarmProfile js e d st db))) = products_table db \<and>
   profiles_table (fst (snd (saveFarmProfile js e d st db))) = profiles_table db \<and>
   orders_table (fst (snd (saveFarmProfile js e d st db))) = orders_table db"
  using saveFarmProfile_cases [of js e d st db] by (elim disjE exE conjE) simp_all

lemma saveFarmProfile_blank:
  assumes "trim js (ff_farm_name (farmForm st)) = [] \<or> trim js (ff_farm_location (farmForm st)) = []"
  shows "saveFarmProfile js e d st db =
     (st, db,
      if farmProfile st = None then []
      else if trim js (ff_farm_name (farmForm st)) = [] then [toast_error ''Farm name is required'']
      else [toast_error ''Farm location is required''])"
  using assms by (cases "farmProfile st") (auto simp: saveFarmProfile_def Let_def)

text \<open>
  C7: whatever \<open>saveFarmProfile\<close> is called with and whatever the built-ins compute, the
  farm profiles table keeps its length and each of its rows differs from the row
  before at most in \<open>farm_name\<close>, \<open>farm_location\<close> and \<open>farm_description\<close>; in particular
  \<open>rating\<close>, \<open>total_reviews\<close> and \<open>total_sales\<close> are as before, and so are the other
  tables. When the farm name or the farm location is blank (\<open>trim\<close> of it is empty),
  nothing is written: the store and the state are unchanged, no write is sent, and (a
  farm profile being loaded) the toast names the missing field. When neither is blank
  and the store answers, the rows of the loaded farm profile carry \<open>trim\<close> of the name,
  \<open>trim\<close> of the location, and \<open>trim\<close> of the description or \<open>null\<close> when that is empty.
\<close>

theorem saveFarmProfile_editable_fields_only:
  assumes "saveFarmProfile js e d st db = (st', db', fx)"
  shows "(length (farm_profiles_table db') = length (farm_profiles_table db) \<and>
      (\<forall>i < length (farm_profiles_table db).
        farm_profiles_table db' ! i =
          (farm_profiles_table db ! i)
            \<lparr>farm_name := farm_name (farm_profiles_table db' ! i),
             farm_location := farm_location (farm_profiles_table db' ! i),
             farm_description := farm_description (farm_profiles_table db' ! i)\<rparr> \<and>
        rating (farm_profiles_table db' ! i) = rating (farm_profiles_table db ! i) \<and>
        total_reviews (farm_profiles_table db' ! i) = total_reviews (farm_profiles_table db ! i) \<and>
        total_sales (farm_profiles_table db' ! i) = total_sales (farm_profiles_table db ! i))) \<and>
     (products_table db' = products_table db \<and>
      profiles_table db' = profiles_table db \<and>
      orders_table db' = orders_table db) \<and>
     (trim js (ff_farm_name (farmForm st)) = [] \<or> trim js (ff_farm_location (farmForm st)) = [] \<longrightarrow>
        db' = db \<and> st' = st \<and> (\<forall>w. store_write w \<notin> set fx) \<and>
        (farmProfile st \<noteq> None \<longrightarrow>
           fx = [toast_error ''Farm name is required''] \<or>
           fx = [toast_error ''Farm location is required''])) \<and>
     (\<forall>fp. farmProfile st = Some fp \<and> e = None \<and>
           trim js (ff_farm_name (farmForm st)) \<noteq> [] \<and>
           trim js (ff_farm_location (farmForm st)) \<noteq> [] \<longrightarrow>
        (\<forall>i < length (farm_profiles_table db).
           fp_id (farm_profiles_table db ! i) = fp_id fp \<longrightarrow>
           farm_name (farm_profiles_table db' ! i) = trim js (ff_farm_name (farmForm st)) \<and>
           farm_location (farm_profiles_table db' ! i) = trim js (ff_farm_location (farmForm st)) \<and>
           farm_description (farm_profiles_table db' ! i) =
             or_null (trim js (ff_farm_description (farmForm st)))))"
    (is "?rows \<and> ?others \<and> ?blank \<and> ?written")
proof -
  from assms have db': "db' = fst (snd (saveFarmProfile js e d st db))" by simp
  have rows: ?rows
    using saveFarmProfile_rows [of js e d st db] db' by auto
  have others: ?others
    using saveFarmProfile_other_tables [of js e d st db] db' by simp
  have blank: ?blank
  proof (rule impI)
    assume b: "trim js (ff_farm_name (farmForm st)) = [] \<or> trim js (ff_farm_location (farmForm st)) = []"
    show "db' = db \<and> st' = st \<and> (\<forall>w. store_write w \<notin> set fx) \<and>
        (farmProfile st \<noteq> None \<longrightarrow>
           fx = [toast_error ''Farm name is required''] \<or>
           fx = [toast_error ''Farm location is required''])"
      using assms saveFarmProfile_blank [OF b, where e = e and d = d and db = db]
      by (auto split: if_splits)
  qed
  have written: ?written
  proof (intro allI impI)
    fix fp i
    assume h: "farmProfile st = Some fp \<and> e = None \<and>
           trim js (ff_farm_name (farmForm st)) \<noteq> [] \<and>
           trim js (ff_farm_location (farmForm st)) \<noteq> []"
      and i: "i < length (farm_profiles_table db)"
      and k: "fp_id (farm_profiles_table db ! i) = fp_id fp"
    from h have "farm_profiles_table db' =
        map (\<lambda>r. if fp_id r = fp_id fp
                 then r\<lparr>farm_name := trim js (ff_farm_name (farmForm st)),
                        farm_location := trim js (ff_farm_location (farmForm st)),
                        farm_description := or_null (trim js (ff_farm_description (farmForm st)))\<rparr>
                 else r) (farm_profiles_table db)"
      using db' by (simp add: saveFarmProfile_def Let_def)
    then show "farm_name (farm_profiles_table db' ! i) = trim js (ff_farm_name (farmForm st)) \<and>
           farm_location (farm_profiles_table db' ! i) = trim js (ff_farm_location (farmForm st)) \<and>
           farm_description (farm_profiles_table db' ! i) =
             or_null (trim js (ff_farm_description (farmForm st)))"
      using i k by simp
  qed
  show ?thesis
    by (rule conjI [OF rows conjI [OF others conjI [OF blank written]]])
qed

text \<open>
  On the example store the farm is renamed and keeps its rating of 4.5; a location
  that is one no-break space is refused.
\<close>

theorem saveFarmProfile_editable_fields_only_witness:
  "saveFarmProfile plain_text None example_defaults example_UpdateProfile example_store =
     (example_UpdateProfile\<lparr>saving := False\<rparr>,
      example_store\<lparr>farm_profiles_table :=
         [sunny_farm\<lparr>farm_name := ''Sunny Farm 2'', farm_location := ''Lamphun'',
                      farm_description := None\<rparr>]\<rparr>,
      [store_write (update_farm_profiles
          \<lparr>u_farm_name = ''Sunny Farm 2'', u_farm_location = ''Lamphun'',
           u_farm_description = None\<rparr> ''farm-1''),
       toast_success ''Farm profile updated'']) \<and>
   rating (sunny_farm\<lparr>farm_name := ''Sunny Farm 2'', farm_location := ''Lamphun'',
                      farm_description := None\<rparr>) = Some (Num (9 / 2)) \<and>
   trim plain_text (ff_farm_location (farmForm (example_UpdateProfile\<lparr>farmForm :=
           \<lparr>ff_farm_name = ''Sunny'', ff_farm_location = [CHR 0xA0], ff_farm_description = []\<rparr>\<rparr>))) = [] \<and>
   saveFarmProfile plain_text None example_defaults
       (example_UpdateProfile\<lparr>farmForm :=
           \<lparr>ff_farm_name = ''Sunny'', ff_farm_location = [CHR 0xA0], ff_farm_description = []\<rparr>\<rparr>)
       example_store =
     (example_UpdateProfile\<lparr>farmForm :=
           \<lparr>ff_farm_name = ''Sunny'', ff_farm_location = [CHR 0xA0], ff_farm_description = []\<rparr>\<rparr>,
      example_store, [toast_error ''Farm location is required''])"
proof -
  let ?blank = "example_UpdateProfile\<lparr>farmForm :=
           \<lparr>ff_farm_name = ''Sunny'', ff_farm_location = [CHR 0xA0], ff_farm_description = []\<rparr>\<rparr>"
  have trims: "trim plain_text '' Sunny Farm 2 '' = ''Sunny Farm 2''"
    "trim plain_text ''Lamphun'' = ''Lamphun''" "trim plain_text [] = []"
    "trim plain_text [CHR 0xA0] = []" "trim plain_text ''Sunny'' = ''Sunny''"
    by (simp_all add: plain_text_def plain_trim_def isWhiteSpace_def)
  have run: "saveFarmProfile plain_text None example_defaults example_UpdateProfile example_store =
     (example_UpdateProfile\<lparr>saving := False\<rparr>,
      example_store\<lparr>farm_profiles_table :=
         [sunny_farm\<lparr>farm_name := ''Sunny Farm 2'', farm_location := ''Lamphun'',
                      farm_description := None\<rparr>]\<rparr>,
      [store_write (update_farm_profiles
          \<lparr>u_farm_name = ''Sunny Farm 2'', u_farm_location = ''Lamphun'',
           u_farm_description = None\<rparr> ''farm-1''),
       toast_success ''Farm profile updated''])"
    by (simp add: saveFarmProfile_def Let_def example_UpdateProfile_def trims or_null_def
        example_store_def sunny_farm_def)
  have kept: "rating (sunny_farm\<lparr>farm_name := ''Sunny Farm 2'', farm_location := ''Lamphun'',
                      farm_description := None\<rparr>) = Some (Num (9 / 2))"
    using saveFarmProfile_editable_fields_only [OF run]
    by (simp add: example_store_def sunny_farm_def)
  have b: "trim plain_text (ff_farm_location (farmForm ?blank)) = []"
    by (simp add: example_UpdateProfile_def trims)
  have nn: "trim plain_text (ff_farm_name (farmForm ?blank)) \<noteq> []" "farmProfile ?blank \<noteq> None"
    by (simp_all add: example_UpdateProfile_def trims)
  obtain st' db' fx where r: "saveFarmProfile plain_text None example_defaults ?blank example_store = (st', db', fx)"
    by (metis prod_cases3)
  have "db' = example_store \<and> st' = ?blank \<and>
      (fx = [toast_error ''Farm name is required''] \<or> fx = [toast_error ''Farm location is required''])"
    using saveFarmProfile_editable_fields_only [OF r] b nn by blast
  moreover have "fx \<noteq> [toast_error ''Farm name is required'']"
    using r nn by (auto simp: saveFarmProfile_def Let_def example_UpdateProfile_def trims)
  ultimately have rej: "saveFarmProfile plain_text None example_defaults ?blank example_store =
      (?blank, example_store, [toast_error ''Farm location is required''])"
    using r by simp
  from run kept b rej show ?thesis by blast
qed

end
